theory Spec2Isabelle
  imports Main "HOL-Library.Multiset"
begin

section \<open>JavaScript values used by the relay\<close>

text \<open>
  A thrown JavaScript error, as far as the relay's handlers look at it: the optional
  \<^verbatim>\<open>code\<close> and \<^verbatim>\<open>message\<close> properties.
\<close>

record js_error =
  err_code :: "string option"
  err_message :: "string option"

text \<open>
  Truthiness. A string is falsy exactly when it is \<^verbatim>\<open>undefined\<close> or empty, a number
  exactly when it is \<^verbatim>\<open>undefined\<close> or zero. An absent property is \<open>None\<close>.
  Numbers are the integers the interface carries (nonces, unix timestamps, block numbers),
  all far below \<open>2^53\<close>, where JavaScript numbers are exact.
\<close>

definition truthy_string :: "string option \<Rightarrow> bool" where
  "truthy_string s = (case s of None \<Rightarrow> False | Some v \<Rightarrow> v \<noteq> [])"

definition truthy_number :: "int option \<Rightarrow> bool" where
  "truthy_number n = (case n of None \<Rightarrow> False | Some v \<Rightarrow> v \<noteq> 0)"

text \<open>\<^verbatim>\<open>String.prototype.toLowerCase\<close> on the ASCII letters (addresses are hexadecimal).\<close>

definition lower_char :: "char \<Rightarrow> char" where
  "lower_char c =
     (let n = (of_char c :: nat) in if 65 \<le> n \<and> n \<le> 90 then char_of (n + 32) else c)"

definition toLowerCase :: "string \<Rightarrow> string" where
  "toLowerCase s = map lower_char s"

text \<open>\<^verbatim>\<open>String.prototype.startsWith\<close> and \<^verbatim>\<open>String.prototype.includes\<close>.\<close>

definition startsWith :: "string \<Rightarrow> string \<Rightarrow> bool" where
  "startsWith s p = (take (length p) s = p)"

definition str_includes :: "string \<Rightarrow> string \<Rightarrow> bool" where
  "str_includes s p = list_ex (\<lambda>i. startsWith (drop i s) p) [0 ..< Suc (length s)]"

text \<open>\<^verbatim>\<open>err.message?.includes(p)\<close>: an absent message gives \<^verbatim>\<open>undefined\<close>, which is falsy.\<close>

definition message_includes :: "js_error \<Rightarrow> string \<Rightarrow> bool" where
  "message_includes err p = (case err_message err of None \<Rightarrow> False | Some m \<Rightarrow> str_includes m p)"

text \<open>\<^verbatim>\<open>err.message || dflt\<close>.\<close>

definition message_or :: "js_error \<Rightarrow> string \<Rightarrow> string" where
  "message_or err dflt =
     (case err_message err of None \<Rightarrow> dflt | Some m \<Rightarrow> if m \<noteq> [] then m else dflt)"

section \<open>The relay: \<^verbatim>\<open>src/api/relay-transfer.ts\<close> and the example implementation\<close>

subsection \<open>Constants and request\<close>

record eip712_domain =
  domain_name :: string
  domain_version :: string
  domain_chainId :: int
  domain_verifyingContract :: string

definition ECO_META_CONTRACT :: string where
  "ECO_META_CONTRACT = ''0xB4E765140cefB7E14B97899Ab573C1e27b5E12b6''"

definition DOMAIN :: eip712_domain where
  "DOMAIN = \<lparr> domain_name = ''EcoMetaTransfer'', domain_version = ''1'',
              domain_chainId = 11155111, domain_verifyingContract = ECO_META_CONTRACT \<rparr>"

type_synonym eip712_types = "(string \<times> (string \<times> string) list) list"

definition TYPES :: eip712_types where
  "TYPES = [(''Transfer'',
       [(''from'', ''address''), (''to'', ''address''), (''amount'', ''uint256''),
        (''nonce'', ''uint256''), (''deadline'', ''uint256'')])]"

text \<open>The message \<^verbatim>\<open>{ from, to, amount, nonce, deadline }\<close> handed to signature recovery.\<close>

record transfer_message =
  msg_from :: string
  msg_to :: string
  msg_amount :: string
  msg_nonce :: int
  msg_deadline :: int

text \<open>
  \<^verbatim>\<open>interface RelayRequest\<close>, read from an untyped JSON body: every property may be
  absent (\<open>None\<close>); a property that is present has the type the interface gives it.
\<close>

record RelayRequest =
  req_from :: "string option"
  req_to :: "string option"
  req_amount :: "string option"
  req_nonce :: "int option"
  req_deadline :: "int option"
  req_signature :: "string option"

text \<open>The value of a property once the presence check has passed.\<close>

definition string_of :: "string option \<Rightarrow> string" where
  "string_of s = (case s of None \<Rightarrow> [] | Some v \<Rightarrow> v)"

definition number_of :: "int option \<Rightarrow> int" where
  "number_of n = (case n of None \<Rightarrow> 0 | Some v \<Rightarrow> v)"

definition message_of :: "RelayRequest \<Rightarrow> transfer_message" where
  "message_of req =
     \<lparr> msg_from = string_of (req_from req), msg_to = string_of (req_to req),
       msg_amount = string_of (req_amount req), msg_nonce = number_of (req_nonce req),
       msg_deadline = number_of (req_deadline req) \<rparr>"

subsection \<open>The collaborators: ethers, the clock, the chain\<close>

record tx_receipt =
  receipt_blockNumber :: int

text \<open>A submitted transaction: its hash and what \<^verbatim>\<open>tx.wait()\<close> gives (a receipt, or it throws).\<close>

record transaction =
  tx_hash :: string
  tx_wait :: "js_error + tx_receipt"

text \<open>
  Everything outside the relay is a parameter. A call that can throw returns a sum,
  \<open>Inl\<close> the thrown error. \<open>Date_now\<close> is \<^verbatim>\<open>Date.now()\<close> in milliseconds,
  \<open>chain_nonces\<close> the read \<^verbatim>\<open>contract.nonces(from)\<close> (already through \<^verbatim>\<open>Number\<close>),
  \<open>chain_transferWithSig\<close> the submission \<^verbatim>\<open>contract.transferWithSig(...)\<close>.
\<close>

record relay_env =
  isAddress :: "string \<Rightarrow> bool"
  Date_now :: int
  verifyTypedData :: "eip712_domain \<Rightarrow> eip712_types \<Rightarrow> transfer_message \<Rightarrow> string \<Rightarrow> js_error + string"
  chain_nonces :: "string \<Rightarrow> js_error + int"
  formatEther :: "string \<Rightarrow> js_error + string"
  chain_transferWithSig :: "string \<Rightarrow> string \<Rightarrow> string \<Rightarrow> int \<Rightarrow> int \<Rightarrow> string \<Rightarrow> js_error + transaction"

text \<open>The calls a run makes to its collaborators, in program order.\<close>

datatype call =
    Call_isAddress string
  | Call_Date_now
  | Call_verifyTypedData eip712_domain eip712_types transfer_message string
  | Call_nonces string
  | Call_formatEther string
  | Call_transferWithSig string string string int int string
  | Call_wait

fun is_submission :: "call \<Rightarrow> bool" where
  "is_submission (Call_transferWithSig f t a n d s) = True"
| "is_submission _ = False"

subsection \<open>Results\<close>

text \<open>One constructor for each place a rejection is returned from.\<close>

datatype relay_error =
    MethodNotAllowed
  | MissingRequiredFields
  | InvalidAddressFormat
  | DeadlinePassed
  | InvalidSignature
  | SignatureVerificationFailed
  | InvalidNonce
  | FailedToVerifyNonce
  | InsufficientFunds
  | UnpredictableGasLimit
  | ExecutionReverted
  | UserRejected
  | OtherError string

text \<open>
  The success answer: \<^verbatim>\<open>handler\<close> sends the hash and the block number,
  \<^verbatim>\<open>relayTransfer\<close> returns the hash only.
\<close>

record relay_success =
  ok_txHash :: string
  ok_blockNumber :: "int option"

type_synonym relay_result = "(relay_error + relay_success) \<times> call list"

text \<open>The \<^verbatim>\<open>error\<close> string of each rejection and the HTTP status the handler sends with it.\<close>

fun error_text :: "relay_error \<Rightarrow> string" where
  "error_text MethodNotAllowed = ''Method not allowed''"
| "error_text MissingRequiredFields = ''Missing required fields''"
| "error_text InvalidAddressFormat = ''Invalid address format''"
| "error_text DeadlinePassed = ''Transfer deadline has passed''"
| "error_text InvalidSignature = ''Invalid signature''"
| "error_text SignatureVerificationFailed = ''Signature verification failed''"
| "error_text InvalidNonce = ''Invalid nonce''"
| "error_text FailedToVerifyNonce = ''Failed to verify nonce''"
| "error_text InsufficientFunds = ''Relayer has insufficient funds for gas''"
| "error_text UnpredictableGasLimit =
     ''Transaction would fail (likely insufficient token balance or approval)''"
| "error_text ExecutionReverted = ''Transaction reverted by contract''"
| "error_text UserRejected = ''Transaction was rejected by user''"
| "error_text (OtherError m) = m"

fun handler_status :: "relay_error \<Rightarrow> int" where
  "handler_status MethodNotAllowed = 405"
| "handler_status FailedToVerifyNonce = 500"
| "handler_status InsufficientFunds = 500"
| "handler_status (OtherError m) = 500"
| "handler_status _ = 400"

text \<open>Sequencing: the calls made so far, then the rest of the run.\<close>

definition after :: "call list \<Rightarrow> relay_result \<Rightarrow> relay_result" where
  "after cs r = (fst r, cs @ snd r)"

definition reject :: "relay_error \<Rightarrow> relay_result" where
  "reject e = (Inl e, [])"

subsection \<open>The presence check\<close>

text \<open>
  \<^verbatim>\<open>!from || !to || !amount || nonce === undefined || !deadline || !signature\<close>
\<close>

definition missing_fields :: "RelayRequest \<Rightarrow> bool" where
  "missing_fields req =
     (\<not> truthy_string (req_from req) \<or> \<not> truthy_string (req_to req) \<or>
      \<not> truthy_string (req_amount req) \<or> req_nonce req = None \<or>
      \<not> truthy_number (req_deadline req) \<or> \<not> truthy_string (req_signature req))"

subsection \<open>\<^verbatim>\<open>relayTransfer\<close> (example implementation)\<close>

text \<open>The \<^verbatim>\<open>catch (err)\<close> around the whole body.\<close>

definition relayTransfer_catch :: "js_error \<Rightarrow> relay_error" where
  "relayTransfer_catch err =
     (if err_code err = Some ''INSUFFICIENT_FUNDS'' then InsufficientFunds
      else if err_code err = Some ''UNPREDICTABLE_GAS_LIMIT'' then UnpredictableGasLimit
      else if message_includes err ''execution reverted'' then ExecutionReverted
      else OtherError (message_or err ''Internal server error''))"

text \<open>Step 3 and 4: submit, wait for the receipt, log, return the hash.\<close>

definition relayTransfer_submit ::
  "relay_env \<Rightarrow> string \<Rightarrow> string \<Rightarrow> string \<Rightarrow> int \<Rightarrow> int \<Rightarrow> string \<Rightarrow> relay_result" where
  "relayTransfer_submit env from_a to_a amount nonce deadline signature =
     after [Call_transferWithSig from_a to_a amount nonce deadline signature]
       (case chain_transferWithSig env from_a to_a amount nonce deadline signature of
          Inl err \<Rightarrow> reject (relayTransfer_catch err)
        | Inr tx \<Rightarrow>
            after [Call_wait]
              (case tx_wait tx of
                 Inl err \<Rightarrow> reject (relayTransfer_catch err)
               | Inr receipt \<Rightarrow>
                   after [Call_formatEther amount]
                     (case formatEther env amount of
                        Inl err \<Rightarrow> reject (relayTransfer_catch err)
                      | Inr shown \<Rightarrow>
                          (Inr \<lparr> ok_txHash = tx_hash tx,
                                 ok_blockNumber = None \<rparr>, []))))"

text \<open>
  The body after the presence check, on the destructured properties (\<open>from_a\<close> and
  \<open>to_a\<close> stand for \<^verbatim>\<open>from\<close> and \<^verbatim>\<open>to\<close>).
\<close>

definition relayTransfer_checked ::
  "relay_env \<Rightarrow> string \<Rightarrow> string \<Rightarrow> string \<Rightarrow> int \<Rightarrow> int \<Rightarrow> string \<Rightarrow> relay_result" where
  "relayTransfer_checked env from_a to_a amount nonce deadline signature =
     after [Call_isAddress from_a]
      (if \<not> isAddress env from_a then reject InvalidAddressFormat
       else after [Call_isAddress to_a]
        (if \<not> isAddress env to_a then reject InvalidAddressFormat
         else after [Call_Date_now]
          (let currentTime = Date_now env div 1000 in
           if deadline < currentTime then reject DeadlinePassed
           else
             let m = \<lparr> msg_from = from_a, msg_to = to_a, msg_amount = amount,
                       msg_nonce = nonce, msg_deadline = deadline \<rparr> in
             after [Call_verifyTypedData DOMAIN TYPES m signature]
              (case verifyTypedData env DOMAIN TYPES m signature of
                 Inl err \<Rightarrow> reject (relayTransfer_catch err)
               | Inr recovered \<Rightarrow>
                   if toLowerCase recovered \<noteq> toLowerCase from_a then reject InvalidSignature
                   else after [Call_nonces from_a]
                    (case chain_nonces env from_a of
                       Inl err \<Rightarrow> reject FailedToVerifyNonce
                     | Inr currentNonce \<Rightarrow>
                         if currentNonce \<noteq> nonce then reject InvalidNonce
                         else relayTransfer_submit env from_a to_a amount nonce deadline
                                signature)))))"

definition relayTransfer :: "relay_env \<Rightarrow> RelayRequest \<Rightarrow> relay_result" where
  "relayTransfer env req =
     (if missing_fields req then reject MissingRequiredFields
      else relayTransfer_checked env (string_of (req_from req)) (string_of (req_to req))
             (string_of (req_amount req)) (number_of (req_nonce req))
             (number_of (req_deadline req)) (string_of (req_signature req)))"

subsection \<open>\<^verbatim>\<open>handler\<close> (the HTTP endpoint)\<close>

definition handler_catch :: "js_error \<Rightarrow> relay_error" where
  "handler_catch err =
     (if err_code err = Some ''INSUFFICIENT_FUNDS'' then InsufficientFunds
      else if err_code err = Some ''UNPREDICTABLE_GAS_LIMIT'' then UnpredictableGasLimit
      else if message_includes err ''execution reverted'' then ExecutionReverted
      else if message_includes err ''user rejected'' then UserRejected
      else OtherError (message_or err ''Failed to relay transaction''))"

text \<open>Log the transfer (the amount through \<^verbatim>\<open>formatEther\<close>), submit, wait, answer 200.\<close>

definition handler_submit ::
  "relay_env \<Rightarrow> string \<Rightarrow> string \<Rightarrow> string \<Rightarrow> int \<Rightarrow> int \<Rightarrow> string \<Rightarrow> relay_result" where
  "handler_submit env from_a to_a amount nonce deadline signature =
     after [Call_formatEther amount]
       (case formatEther env amount of
          Inl err \<Rightarrow> reject (handler_catch err)
        | Inr shown \<Rightarrow>
            after [Call_transferWithSig from_a to_a amount nonce deadline signature]
              (case chain_transferWithSig env from_a to_a amount nonce deadline signature of
                 Inl err \<Rightarrow> reject (handler_catch err)
               | Inr tx \<Rightarrow>
                   after [Call_wait]
                     (case tx_wait tx of
                        Inl err \<Rightarrow> reject (handler_catch err)
                      | Inr receipt \<Rightarrow>
                          (Inr \<lparr> ok_txHash = tx_hash tx,
                                 ok_blockNumber = Some (receipt_blockNumber receipt) \<rparr>, []))))"

definition handler_checked ::
  "relay_env \<Rightarrow> string \<Rightarrow> string \<Rightarrow> string \<Rightarrow> int \<Rightarrow> int \<Rightarrow> string \<Rightarrow> relay_result" where
  "handler_checked env from_a to_a amount nonce deadline signature =
     after [Call_isAddress from_a]
      (if \<not> isAddress env from_a then reject InvalidAddressFormat
       else after [Call_isAddress to_a]
        (if \<not> isAddress env to_a then reject InvalidAddressFormat
         else after [Call_Date_now]
          (let currentTime = Date_now env div 1000 in
           if deadline < currentTime then reject DeadlinePassed
           else
             let m = \<lparr> msg_from = from_a, msg_to = to_a, msg_amount = amount,
                       msg_nonce = nonce, msg_deadline = deadline \<rparr> in
             after [Call_verifyTypedData DOMAIN TYPES m signature]
              (case verifyTypedData env DOMAIN TYPES m signature of
                 Inl err \<Rightarrow> reject SignatureVerificationFailed
               | Inr recovered \<Rightarrow>
                   if toLowerCase recovered \<noteq> toLowerCase from_a then reject InvalidSignature
                   else after [Call_nonces from_a]
                    (case chain_nonces env from_a of
                       Inl err \<Rightarrow> reject FailedToVerifyNonce
                     | Inr currentNonce \<Rightarrow>
                         if currentNonce \<noteq> nonce then reject InvalidNonce
                         else handler_submit env from_a to_a amount nonce deadline
                                signature)))))"

definition handler :: "relay_env \<Rightarrow> string \<Rightarrow> RelayRequest \<Rightarrow> relay_result" where
  "handler env http_method req =
     (if http_method \<noteq> ''POST'' then reject MethodNotAllowed
      else if missing_fields req then reject MissingRequiredFields
      else handler_checked env (string_of (req_from req)) (string_of (req_to req))
             (string_of (req_amount req)) (number_of (req_nonce req))
             (number_of (req_deadline req)) (string_of (req_signature req)))"

subsection \<open>The four checks, stated on their own\<close>

text \<open>
  What each check of the relay decides, and the call it makes, written independently of
  the two handlers; the theorems relate the handlers to these.
\<close>

definition address_check :: "relay_env \<Rightarrow> RelayRequest \<Rightarrow> bool" where
  "address_check env req =
     (isAddress env (string_of (req_from req)) \<and> isAddress env (string_of (req_to req)))"

definition currentTime :: "relay_env \<Rightarrow> int" where
  "currentTime env = Date_now env div 1000"

definition deadline_check :: "relay_env \<Rightarrow> RelayRequest \<Rightarrow> bool" where
  "deadline_check env req = (\<not> number_of (req_deadline req) < currentTime env)"

definition recovered_signer :: "relay_env \<Rightarrow> RelayRequest \<Rightarrow> js_error + string" where
  "recovered_signer env req =
     verifyTypedData env DOMAIN TYPES (message_of req) (string_of (req_signature req))"

definition signature_check :: "relay_env \<Rightarrow> RelayRequest \<Rightarrow> bool" where
  "signature_check env req =
     (case recovered_signer env req of
        Inl err \<Rightarrow> False
      | Inr recovered \<Rightarrow> toLowerCase recovered = toLowerCase (string_of (req_from req)))"

definition nonce_check :: "relay_env \<Rightarrow> RelayRequest \<Rightarrow> bool" where
  "nonce_check env req =
     (chain_nonces env (string_of (req_from req)) = Inr (number_of (req_nonce req)))"

definition address_calls :: "RelayRequest \<Rightarrow> call list" where
  "address_calls req =
     [Call_isAddress (string_of (req_from req)), Call_isAddress (string_of (req_to req))]"

definition signature_call :: "RelayRequest \<Rightarrow> call" where
  "signature_call req =
     Call_verifyTypedData DOMAIN TYPES (message_of req) (string_of (req_signature req))"

definition nonce_call :: "RelayRequest \<Rightarrow> call" where
  "nonce_call req = Call_nonces (string_of (req_from req))"

definition check_calls :: "RelayRequest \<Rightarrow> call list" where
  "check_calls req = address_calls req @ [Call_Date_now, signature_call req, nonce_call req]"

definition submission_call :: "RelayRequest \<Rightarrow> call" where
  "submission_call req =
     Call_transferWithSig (string_of (req_from req)) (string_of (req_to req))
       (string_of (req_amount req)) (number_of (req_nonce req))
       (number_of (req_deadline req)) (string_of (req_signature req))"

definition rejected :: "relay_result \<Rightarrow> bool" where
  "rejected r = isl (fst r)"

definition submitted :: "relay_result \<Rightarrow> bool" where
  "submitted r = list_ex is_submission (snd r)"

section \<open>The role and action cache: the \<^verbatim>\<open>useContract\<close> hook\<close>

subsection \<open>Types (\<^verbatim>\<open>src/types/index.ts\<close>)\<close>

record UserRole =
  isManufacturer :: bool
  isAuditor :: bool
  isAdmin :: bool

record EcoAction =
  description :: string
  reductionAmount :: int
  ipfsHash :: string
  verified :: bool

record RoleChangeEvent =
  user :: string
  role :: string
  granted :: bool
  timestamp :: int

subsection \<open>The contract object\<close>

text \<open>The struct \<^verbatim>\<open>manufacturerActions(address, index)\<close> returns, its amount a bigint.\<close>

record chain_action =
  act_description :: string
  act_reductionAmount :: int
  act_ipfsHash :: string
  act_verified :: bool

text \<open>An event log: its decoded arguments \<^verbatim>\<open>account\<close> and \<^verbatim>\<open>role\<close>, if any, and its block.\<close>

record event_log =
  log_args :: "(string \<times> string) option"
  log_blockNumber :: int

datatype event_filter = RoleGranted | RoleRevoked

text \<open>
  The calls of the contract the hook uses; each is awaited and may throw. A null
  \<^verbatim>\<open>contract\<close> is \<open>None\<close>.
\<close>

record chain =
  MANUFACTURER_ROLE :: "js_error + string"
  AUDITOR_ROLE :: "js_error + string"
  DEFAULT_ADMIN_ROLE :: "js_error + string"
  hasRole :: "string \<Rightarrow> string \<Rightarrow> js_error + bool"
  manufacturerActions :: "string \<Rightarrow> nat \<Rightarrow> js_error + chain_action"
  balanceOf :: "string \<Rightarrow> js_error + int"
  queryFilter :: "event_filter \<Rightarrow> js_error + event_log list"

subsection \<open>Effects and the cached state\<close>

text \<open>
  What a run of one of the hook's functions does, in program order: the reads it awaits,
  the messages it writes with \<^verbatim>\<open>console.error\<close>, and the state setters it calls.
\<close>

datatype effect =
    Read_MANUFACTURER_ROLE
  | Read_AUDITOR_ROLE
  | Read_DEFAULT_ADMIN_ROLE
  | Read_hasRole string string
  | Read_manufacturerActions string nat
  | Read_balanceOf string
  | Read_queryFilter event_filter
  | console_error string
  | setUserRole UserRole
  | setUserActions "EcoAction list"
  | setRoleEvents "RoleChangeEvent list"
  | updateTokenBalance string

record cache =
  userRole :: UserRole
  userActions :: "EcoAction list"
  roleEvents :: "RoleChangeEvent list"
  tokenBalance :: string
  console :: "string list"

text \<open>The initial values of the \<^verbatim>\<open>useState\<close> cells.\<close>

definition initial_cache :: cache where
  "initial_cache =
     \<lparr> userRole = \<lparr> isManufacturer = False, isAuditor = False, isAdmin = False \<rparr>,
       userActions = [], roleEvents = [], tokenBalance = ''0'', console = [] \<rparr>"

fun apply_effect :: "cache \<Rightarrow> effect \<Rightarrow> cache" where
  "apply_effect st (setUserRole r) = st\<lparr>userRole := r\<rparr>"
| "apply_effect st (setUserActions as) = st\<lparr>userActions := as\<rparr>"
| "apply_effect st (setRoleEvents es) = st\<lparr>roleEvents := es\<rparr>"
| "apply_effect st (updateTokenBalance b) = st\<lparr>tokenBalance := b\<rparr>"
| "apply_effect st (console_error m) = st\<lparr>console := console st @ [m]\<rparr>"
| "apply_effect st _ = st"

definition apply_effects :: "cache \<Rightarrow> effect list \<Rightarrow> cache" where
  "apply_effects st es = foldl apply_effect st es"

text \<open>
  \<^verbatim>\<open>try { v = await read; ... } catch (error) { ... }\<close>: the read is made; if it throws
  the handler runs, otherwise the rest of the \<^verbatim>\<open>try\<close> block.
\<close>

definition try_await ::
  "effect \<Rightarrow> js_error + 'a \<Rightarrow> (js_error \<Rightarrow> effect list) \<Rightarrow> ('a \<Rightarrow> effect list) \<Rightarrow> effect list" where
  "try_await e r handle rest = e # (case r of Inl err \<Rightarrow> handle err | Inr v \<Rightarrow> rest v)"

subsection \<open>\<^verbatim>\<open>checkUserRole\<close>\<close>

definition checkUserRole :: "chain option \<Rightarrow> string option \<Rightarrow> effect list" where
  "checkUserRole contract address =
     (case contract of
        None \<Rightarrow> []
      | Some c \<Rightarrow>
          if \<not> truthy_string address then []
          else
            let a = string_of address;
                catch = (\<lambda>error. [console_error ''Error checking user role:''])
            in
            try_await Read_MANUFACTURER_ROLE (MANUFACTURER_ROLE c) catch (\<lambda>manufacturerRole.
            try_await Read_AUDITOR_ROLE (AUDITOR_ROLE c) catch (\<lambda>auditorRole.
            try_await Read_DEFAULT_ADMIN_ROLE (DEFAULT_ADMIN_ROLE c) catch (\<lambda>defaultAdminRole.
            try_await (Read_hasRole manufacturerRole a) (hasRole c manufacturerRole a) catch
              (\<lambda>isManufacturer'.
            try_await (Read_hasRole auditorRole a) (hasRole c auditorRole a) catch
              (\<lambda>isAuditor'.
            try_await (Read_hasRole defaultAdminRole a) (hasRole c defaultAdminRole a) catch
              (\<lambda>isAdmin'.
              [setUserRole \<lparr> isManufacturer = isManufacturer', isAuditor = isAuditor',
                             isAdmin = isAdmin' \<rparr>])))))))"

subsection \<open>\<^verbatim>\<open>loadUserActions\<close>\<close>

text \<open>
  \<^verbatim>\<open>Number\<close> on a bigint gives the nearest double, ties to the even significand. A
  double has a significand of 53 bits: a magnitude of at most 53 bits is kept exactly, a
  longer one is rounded to a multiple of \<open>2 ^ e\<close>, where \<open>e\<close> is the number of bits
  beyond 53. The contract's amounts are \<^verbatim>\<open>uint256\<close>, far below the magnitudes where a
  double overflows.
\<close>

fun bit_length :: "nat \<Rightarrow> nat" where
  "bit_length n = (if n = 0 then 0 else Suc (bit_length (n div 2)))"

declare bit_length.simps [simp del]

definition Number_of_nat :: "nat \<Rightarrow> nat" where
  "Number_of_nat n =
     (if bit_length n \<le> 53 then n
      else
        let e = bit_length n - 53; q = n div 2 ^ e; r = n mod 2 ^ e; half = 2 ^ (e - 1)
        in (if half < r \<or> (r = half \<and> odd q) then q + 1 else q) * 2 ^ e)"

definition Number_of_bigint :: "int \<Rightarrow> int" where
  "Number_of_bigint i =
     (if i < 0 then - int (Number_of_nat (nat (- i))) else int (Number_of_nat (nat i)))"

text \<open>
  The object pushed for one record: \<^verbatim>\<open>Number(action.reductionAmount)\<close> and the copy of
  the other three properties.
\<close>

definition to_EcoAction :: "chain_action \<Rightarrow> EcoAction" where
  "to_EcoAction action =
     \<lparr> description = act_description action,
       reductionAmount = Number_of_bigint (act_reductionAmount action),
       ipfsHash = act_ipfsHash action, verified = act_verified action \<rparr>"

text \<open>
  The \<^verbatim>\<open>while (true)\<close> loop, with the list built so far and the reads made so far. It
  ends only at a read that throws; if no read ever throws it does not return, which
  is the value \<open>None\<close>.
\<close>

partial_function (option) probe_actions ::
  "chain \<Rightarrow> string \<Rightarrow> nat \<Rightarrow> EcoAction list \<Rightarrow> effect list \<Rightarrow> (EcoAction list \<times> effect list) option"
where
  "probe_actions c a actionId actions reads =
     (case manufacturerActions c a actionId of
        Inl err \<Rightarrow> Some (actions, reads @ [Read_manufacturerActions a actionId])
      | Inr action \<Rightarrow>
          probe_actions c a (actionId + 1) (actions @ [to_EcoAction action])
            (reads @ [Read_manufacturerActions a actionId]))"

definition loadUserActions ::
  "chain option \<Rightarrow> string option \<Rightarrow> UserRole \<Rightarrow> effect list option" where
  "loadUserActions contract address role_now =
     (case contract of
        None \<Rightarrow> Some []
      | Some c \<Rightarrow>
          if \<not> truthy_string address \<or> \<not> isManufacturer role_now then Some []
          else
            (case probe_actions c (string_of address) 0 [] [] of
               None \<Rightarrow> None
             | Some (actions, reads) \<Rightarrow> Some (reads @ [setUserActions actions])))"

subsection \<open>\<^verbatim>\<open>getTokenBalance\<close> and the refresh of the cached balance\<close>

text \<open>
  \<^verbatim>\<open>getTokenBalance\<close> returns a string and never throws. \<open>fmt\<close> is
  \<^verbatim>\<open>ethers.formatEther\<close> on a bigint.
\<close>

definition getTokenBalance ::
  "(int \<Rightarrow> string) \<Rightarrow> chain option \<Rightarrow> string option \<Rightarrow> string \<times> effect list" where
  "getTokenBalance fmt contract address =
     (case contract of
        None \<Rightarrow> (''0'', [])
      | Some c \<Rightarrow>
          if \<not> truthy_string address then (''0'', [])
          else
            (case balanceOf c (string_of address) of
               Inl err \<Rightarrow>
                 (''0'', [Read_balanceOf (string_of address),
                          console_error ''Error getting token balance:''])
             | Inr balance \<Rightarrow> (fmt balance, [Read_balanceOf (string_of address)])))"

text \<open>
  \<^verbatim>\<open>fetchTokenBalance\<close> in the application's effect, and \<^verbatim>\<open>onRefreshBalance\<close>, which has
  the same body without the \<^verbatim>\<open>try\<close>: the string \<^verbatim>\<open>getTokenBalance\<close> returns is stored
  with \<^verbatim>\<open>updateTokenBalance\<close>.
\<close>

definition fetchTokenBalance ::
  "(int \<Rightarrow> string) \<Rightarrow> chain option \<Rightarrow> bool \<Rightarrow> string option \<Rightarrow> effect list" where
  "fetchTokenBalance fmt contract wallet_isConnected wallet_address =
     (if wallet_isConnected \<and> truthy_string wallet_address then
        (let (balance, reads) = getTokenBalance fmt contract wallet_address
         in reads @ [updateTokenBalance balance])
      else [])"

subsection \<open>\<^verbatim>\<open>loadRoleEvents\<close>\<close>

definition getRoleName :: "string \<Rightarrow> string" where
  "getRoleName roleHash =
     (if roleHash = ''0x0000000000000000000000000000000000000000000000000000000000000000''
        then ''Admin''
      else if roleHash = ''0x9f2df0fed2c77648de5860a4cc508cd0818c85b8b8a1ab4ceeef8d981c8956a6''
        then ''Manufacturer''
      else if roleHash = ''0x1e4c11d3c2f3e3b3e3b3e3b3e3b3e3b3e3b3e3b3e3b3e3b3e3b3e3b3e3b3e3b3''
        then ''Auditor''
      else ''Unknown'')"

text \<open>\<^verbatim>\<open>logs.forEach(event => { if (event.args) events.push({...}) })\<close>\<close>

definition push_events :: "bool \<Rightarrow> event_log list \<Rightarrow> RoleChangeEvent list" where
  "push_events g logs =
     concat (map (\<lambda>event.
        case log_args event of
          None \<Rightarrow> []
        | Some (account, role_hash) \<Rightarrow>
            [\<lparr> user = account, role = getRoleName role_hash, granted = g,
               timestamp = log_blockNumber event \<rparr>]) logs)"

text \<open>
  \<^verbatim>\<open>events.sort((a, b) => b.timestamp - a.timestamp)\<close>. \<^verbatim>\<open>Array.prototype.sort\<close> is
  stable, so the result is the stable arrangement by decreasing timestamp.
\<close>

definition sort_events :: "RoleChangeEvent list \<Rightarrow> RoleChangeEvent list" where
  "sort_events events = sort_key (\<lambda>e. - timestamp e) events"

text \<open>
  Both queries are started before either is awaited (\<^verbatim>\<open>Promise.all\<close>); if one throws,
  the \<^verbatim>\<open>catch\<close> logs and nothing is stored.
\<close>

definition loadRoleEvents :: "chain option \<Rightarrow> effect list" where
  "loadRoleEvents contract =
     (case contract of
        None \<Rightarrow> []
      | Some c \<Rightarrow>
          [Read_queryFilter RoleGranted, Read_queryFilter RoleRevoked] @
          (case (queryFilter c RoleGranted, queryFilter c RoleRevoked) of
             (Inr grantedEvents, Inr revokedEvents) \<Rightarrow>
               (let events = push_events True grantedEvents @ push_events False revokedEvents
                in [setRoleEvents (take 20 (sort_events events))])
           | _ \<Rightarrow> [console_error ''Error loading role events:'']))"

subsection \<open>The role queries of one run, and kinds of effects\<close>

text \<open>
  The answers of the three role-membership queries of one run, when all six reads
  succeed, and the reads themselves; written independently of \<^verbatim>\<open>checkUserRole\<close>.
\<close>

definition role_batch :: "chain \<Rightarrow> string \<Rightarrow> UserRole option" where
  "role_batch c a =
     (case (MANUFACTURER_ROLE c, AUDITOR_ROLE c, DEFAULT_ADMIN_ROLE c) of
        (Inr manufacturerRole, Inr auditorRole, Inr defaultAdminRole) \<Rightarrow>
          (case (hasRole c manufacturerRole a, hasRole c auditorRole a,
                 hasRole c defaultAdminRole a) of
             (Inr m, Inr au, Inr ad) \<Rightarrow>
               Some \<lparr> isManufacturer = m, isAuditor = au, isAdmin = ad \<rparr>
           | _ \<Rightarrow> None)
      | _ \<Rightarrow> None)"


text \<open>The state setters, and the log messages, among the effects.\<close>

fun is_setter :: "effect \<Rightarrow> bool" where
  "is_setter (setUserRole r) = True"
| "is_setter (setUserActions as) = True"
| "is_setter (setRoleEvents es) = True"
| "is_setter (updateTokenBalance b) = True"
| "is_setter _ = False"

text \<open>What the displayed list of role events must satisfy.\<close>

definition events_ok :: "RoleChangeEvent list \<Rightarrow> bool" where
  "events_ok events =
     (sorted_wrt (\<lambda>x y. timestamp y \<le> timestamp x) events \<and> length events \<le> 20)"

fun is_log :: "effect \<Rightarrow> bool" where
  "is_log (console_error m) = True"
| "is_log _ = False"

section \<open>Building a transfer request: the two gasless-transfer components\<close>

text \<open>\<^verbatim>\<open>interface TransferRequest\<close>, declared alike in both components.\<close>

record TransferRequest =
  tr_from :: string
  tr_to :: string
  tr_amount :: string
  tr_nonce :: int
  tr_deadline :: int

text \<open>\<^verbatim>\<open>BigInt.prototype.toString()\<close>: the decimal digits.\<close>

definition digit_char :: "nat \<Rightarrow> char" where
  "digit_char d = char_of (48 + d)"

fun nat_toString :: "nat \<Rightarrow> string" where
  "nat_toString n =
     (if n < 10 then [digit_char n] else nat_toString (n div 10) @ [digit_char (n mod 10)])"

declare nat_toString.simps [simp del]

definition bigint_toString :: "int \<Rightarrow> string" where
  "bigint_toString i = (if i < 0 then CHR ''-'' # nat_toString (nat (- i)) else nat_toString (nat i))"

text \<open>\<^verbatim>\<open>new Error(m)\<close>\<close>

definition Error :: "string \<Rightarrow> js_error" where
  "Error m = \<lparr> err_code = None, err_message = Some m \<rparr>"

text \<open>
  What a component has at hand when it builds a request: the provider (null, or giving
  the read \<^verbatim>\<open>nonces(address)\<close> of a contract made from it), whether
  \<^verbatim>\<open>new ethers.Contract(...)\<close> throws, the connected address, the two form fields,
  \<^verbatim>\<open>ethers.parseEther\<close>, and \<^verbatim>\<open>Date.now()\<close> in milliseconds at its two call sites.
\<close>

record transfer_form =
  form_provider :: "(string \<Rightarrow> js_error + int) option"
  form_new_Contract :: "js_error option"
  form_address :: "string option"
  form_recipientAddress :: string
  form_amount :: string
  form_parseEther :: "string \<Rightarrow> js_error + int"
  form_now_getNonce :: int
  form_now_deadline :: int

subsection \<open>\<^verbatim>\<open>EcoGaslessTransfer.tsx\<close> (the primary flow)\<close>

text \<open>
  \<^verbatim>\<open>getNonce\<close> returns the nonce and what it wrote with \<^verbatim>\<open>console.error\<close>. Everything
  in its \<^verbatim>\<open>try\<close> block that throws leads to the timestamp.
\<close>

definition EcoGaslessTransfer_getNonce :: "transfer_form \<Rightarrow> js_error + int \<times> string list" where
  "EcoGaslessTransfer_getNonce env =
     (case form_provider env of
        None \<Rightarrow> Inl (Error ''Provider or address not available'')
      | Some nonces \<Rightarrow>
          if \<not> truthy_string (form_address env)
          then Inl (Error ''Provider or address not available'')
          else
            (case form_new_Contract env of
               Some err \<Rightarrow> Inr (form_now_getNonce env div 1000, [''Error getting nonce:''])
             | None \<Rightarrow>
                 (case nonces (string_of (form_address env)) of
                    Inr nonce \<Rightarrow> Inr (nonce, [])
                  | Inl err \<Rightarrow>
                      Inr (form_now_getNonce env div 1000, [''Error getting nonce:'']))))"

definition EcoGaslessTransfer_createTransferRequest ::
  "transfer_form \<Rightarrow> js_error + TransferRequest \<times> string list" where
  "EcoGaslessTransfer_createTransferRequest env =
     (if \<not> truthy_string (form_address env) then Inl (Error ''Address not available'')
      else
        (case EcoGaslessTransfer_getNonce env of
           Inl err \<Rightarrow> Inl err
         | Inr (nonce, logs) \<Rightarrow>
             let deadline = form_now_deadline env div 1000 + 900 in
             (case form_parseEther env (form_amount env) of
                Inl err \<Rightarrow> Inl err
              | Inr wei \<Rightarrow>
                  Inr (\<lparr> tr_from = string_of (form_address env),
                         tr_to = form_recipientAddress env,
                         tr_amount = bigint_toString wei,
                         tr_nonce = nonce, tr_deadline = deadline \<rparr>, logs))))"

subsection \<open>\<^verbatim>\<open>GaslessTransferForm.tsx\<close> (the secondary variant)\<close>

text \<open>
  Here \<^verbatim>\<open>getNonce\<close> makes the contract object and returns the timestamp, in the
  \<^verbatim>\<open>try\<close> block as in the \<^verbatim>\<open>catch\<close>; no read is made.
\<close>

definition GaslessTransferForm_getNonce :: "transfer_form \<Rightarrow> js_error + int \<times> string list" where
  "GaslessTransferForm_getNonce env =
     (case form_provider env of
        None \<Rightarrow> Inl (Error ''Provider or address not available'')
      | Some nonces \<Rightarrow>
          if \<not> truthy_string (form_address env)
          then Inl (Error ''Provider or address not available'')
          else
            (case form_new_Contract env of
               Some err \<Rightarrow> Inr (form_now_getNonce env div 1000, [''Error getting nonce:''])
             | None \<Rightarrow> Inr (form_now_getNonce env div 1000, [])))"

definition GaslessTransferForm_createTransferRequest ::
  "transfer_form \<Rightarrow> js_error + TransferRequest \<times> string list" where
  "GaslessTransferForm_createTransferRequest env =
     (if \<not> truthy_string (form_address env) then Inl (Error ''Address not available'')
      else
        (case GaslessTransferForm_getNonce env of
           Inl err \<Rightarrow> Inl err
         | Inr (nonce, logs) \<Rightarrow>
             let deadline = form_now_deadline env div 1000 + 3600 in
             (case form_parseEther env (form_amount env) of
                Inl err \<Rightarrow> Inl err
              | Inr wei \<Rightarrow>
                  Inr (\<lparr> tr_from = string_of (form_address env),
                         tr_to = form_recipientAddress env,
                         tr_amount = bigint_toString wei,
                         tr_nonce = nonce, tr_deadline = deadline \<rparr>, logs))))"

section \<open>\<^verbatim>\<open>validateGaslessTransferData\<close> (\<^verbatim>\<open>src/utils/gasless-transfer-test.ts\<close>)\<close>

text \<open>\<^verbatim>\<open>interface GaslessTransferData\<close> has the properties of \<^verbatim>\<open>RelayRequest\<close>.\<close>

type_synonym GaslessTransferData = RelayRequest

record validation_env =
  val_isAddress :: "string \<Rightarrow> bool"
  val_parseUnits :: "string \<Rightarrow> nat \<Rightarrow> js_error + int"
  val_Date_now :: int

text \<open>A word between apostrophes, as the messages write the property names.\<close>

definition quoted :: "string \<Rightarrow> string" where
  "quoted w = CHR 0x27 # w @ [CHR 0x27]"

definition Missing_from :: string where
  "Missing_from = ''Missing '' @ quoted ''from'' @ '' address''"

definition Missing_to :: string where
  "Missing_to = ''Missing '' @ quoted ''to'' @ '' address''"

definition Missing_amount :: string where
  "Missing_amount = ''Missing '' @ quoted ''amount''"

definition Missing_nonce :: string where
  "Missing_nonce = ''Missing '' @ quoted ''nonce''"

definition Missing_deadline :: string where
  "Missing_deadline = ''Missing '' @ quoted ''deadline''"

definition Missing_signature :: string where
  "Missing_signature = ''Missing '' @ quoted ''signature''"

text \<open>\<^verbatim>\<open>if (c) errors.push(m)\<close>\<close>

definition push_if :: "bool \<Rightarrow> string \<Rightarrow> string list" where
  "push_if c m = (if c then [m] else [])"

definition validateGaslessTransferData ::
  "validation_env \<Rightarrow> GaslessTransferData \<Rightarrow> bool \<times> string list" where
  "validateGaslessTransferData env data =
     (let errors =
        push_if (\<not> truthy_string (req_from data)) Missing_from @
        push_if (\<not> truthy_string (req_to data)) Missing_to @
        push_if (\<not> truthy_string (req_amount data)) Missing_amount @
        push_if (req_nonce data = None) Missing_nonce @
        push_if (\<not> truthy_number (req_deadline data)) Missing_deadline @
        push_if (\<not> truthy_string (req_signature data)) Missing_signature @
        push_if (truthy_string (req_from data) \<and> \<not> val_isAddress env (string_of (req_from data)))
          (''Invalid '' @ quoted ''from'' @ '' address format'') @
        push_if (truthy_string (req_to data) \<and> \<not> val_isAddress env (string_of (req_to data)))
          (''Invalid '' @ quoted ''to'' @ '' address format'') @
        (if truthy_string (req_amount data) then
           (case val_parseUnits env (string_of (req_amount data)) 18 of
              Inl err \<Rightarrow> [''Invalid amount format'']
            | Inr amount \<Rightarrow> push_if (amount \<le> 0) ''Amount must be greater than 0'')
         else []) @
        (if truthy_number (req_deadline data) then
           (let currentTime = val_Date_now env div 1000 in
            push_if (number_of (req_deadline data) < currentTime) ''Deadline has already passed'')
         else []) @
        push_if (truthy_string (req_signature data) \<and>
                 \<not> startsWith (string_of (req_signature data)) ''0x'')
          (''Signature must start with '' @ quoted ''0x'')
      in (errors = [], errors))"

subsection \<open>A concrete environment and request\<close>

text \<open>
  An environment in which ethers accepts the two test addresses, the test signature
  recovers to the (checksummed) sender, the signature \<^verbatim>\<open>0x\<close> makes recovery throw, any
  other signature recovers to the recipient, and the chain holds nonce 0 and mines every
  submission.
\<close>

definition test_from :: string where
  "test_from = ''0xabcdefabcdefabcdefabcdefabcdefabcdefabcd''"

definition test_from_checksummed :: string where
  "test_from_checksummed = ''0xABCDEFabcdefABCDEFabcdefABCDEFabcdefABCD''"

definition test_to :: string where
  "test_to = ''0x0987654321098765432109876543210987654321''"

definition test_signature :: string where
  "test_signature = ''0x1234567890abcdef1b''"

definition test_receipt :: tx_receipt where
  "test_receipt = \<lparr> receipt_blockNumber = 100 \<rparr>"

definition test_tx :: transaction where
  "test_tx = \<lparr> tx_hash = ''0xfeed'', tx_wait = Inr test_receipt \<rparr>"

definition test_throw :: js_error where
  "test_throw = \<lparr> err_code = Some ''INVALID_ARGUMENT'', err_message = Some ''invalid raw signature length'' \<rparr>"

definition test_env :: relay_env where
  "test_env =
     \<lparr> isAddress = (\<lambda>a. a = test_from \<or> a = test_to),
       Date_now = 1700000000123,
       verifyTypedData = (\<lambda>d t m s.
          if s = test_signature then Inr test_from_checksummed
          else if s = ''0x'' then Inl test_throw else Inr test_to),
       chain_nonces = (\<lambda>a. Inr 0),
       formatEther = (\<lambda>a. Inr ''1.0''),
       chain_transferWithSig = (\<lambda>f t a n d s. Inr test_tx) \<rparr>"

definition test_request :: RelayRequest where
  "test_request =
     \<lparr> req_from = Some test_from, req_to = Some test_to,
       req_amount = Some ''1000000000000000000'', req_nonce = Some 0,
       req_deadline = Some 1700000900, req_signature = Some test_signature \<rparr>"

definition test_validation_env :: validation_env where
  "test_validation_env =
     \<lparr> val_isAddress = (\<lambda>a. a = test_from \<or> a = test_to),
       val_parseUnits = (\<lambda>a d.
          if a = ''0'' then Inr 0
          else if a = ''1000000000000000000'' then Inr (10 ^ 18 * 10 ^ d) else Inl test_throw),
       val_Date_now = 1700000000123 \<rparr>"

text \<open>
  A contract on which the test sender is a manufacturer with two recorded actions, the
  second with an amount of 2363 tokens in wei (a read at index 2 reverts), holds a balance of five tokens, and whose logs hold two role
  grants and one revocation.
\<close>

definition test_formatEther :: "int \<Rightarrow> string" where
  "test_formatEther b = (if b = 5000000000000000000 then ''5.0'' else ''0.0'')"

definition test_revert :: js_error where
  "test_revert = \<lparr> err_code = Some ''CALL_EXCEPTION'', err_message = Some ''execution reverted'' \<rparr>"

definition test_action :: "nat \<Rightarrow> chain_action" where
  "test_action j =
     \<lparr> act_description = (if j = 0 then ''Solar panels'' else ''Heat pumps''),
       act_reductionAmount = (if j = 0 then 5 else 2363000000000000000000),
       act_ipfsHash = (if j = 0 then ''QmA'' else ''QmB''), act_verified = (j = 0) \<rparr>"

definition test_chain :: chain where
  "test_chain =
     \<lparr> MANUFACTURER_ROLE = Inr ''0x9f2df0fed2c77648de5860a4cc508cd0818c85b8b8a1ab4ceeef8d981c8956a6'',
       AUDITOR_ROLE = Inr ''0x1e4c11d3c2f3e3b3e3b3e3b3e3b3e3b3e3b3e3b3e3b3e3b3e3b3e3b3e3b3e3b3'',
       DEFAULT_ADMIN_ROLE = Inr ''0x0000000000000000000000000000000000000000000000000000000000000000'',
       hasRole = (\<lambda>r a. Inr (a = test_from \<and>
          r = ''0x9f2df0fed2c77648de5860a4cc508cd0818c85b8b8a1ab4ceeef8d981c8956a6'')),
       manufacturerActions = (\<lambda>a j.
          if a = test_from \<and> j < 2 then Inr (test_action j) else Inl test_revert),
       balanceOf = (\<lambda>a. Inr 5000000000000000000),
       queryFilter = (\<lambda>f. case f of
          RoleGranted \<Rightarrow>
            Inr [\<lparr> log_args = Some (test_from, ''0x9f2df0fed2c77648de5860a4cc508cd0818c85b8b8a1ab4ceeef8d981c8956a6''), log_blockNumber = 10 \<rparr>,
                 \<lparr> log_args = Some (test_to, ''0x1e4c11d3c2f3e3b3e3b3e3b3e3b3e3b3e3b3e3b3e3b3e3b3e3b3e3b3e3b3e3b3''), log_blockNumber = 30 \<rparr>]
        | RoleRevoked \<Rightarrow>
            Inr [\<lparr> log_args = Some (test_to, ''0x1e4c11d3c2f3e3b3e3b3e3b3e3b3e3b3e3b3e3b3e3b3e3b3e3b3e3b3e3b3e3b3''), log_blockNumber = 20 \<rparr>]) \<rparr>"

text \<open>The same contract with 25 role grants in its logs, in the blocks 1 to 25.\<close>

definition test_busy_chain :: chain where
  "test_busy_chain =
     test_chain\<lparr>queryFilter := (\<lambda>f. case f of
        RoleGranted \<Rightarrow>
          Inr (map (\<lambda>b. \<lparr> log_args = Some (test_from,
                 ''0x9f2df0fed2c77648de5860a4cc508cd0818c85b8b8a1ab4ceeef8d981c8956a6''),
               log_blockNumber = int b \<rparr>) [1 ..< 26])
      | RoleRevoked \<Rightarrow> Inr [])\<rparr>"

text \<open>A form filled in for a transfer of ten tokens, on a chain whose nonce for the sender is 7.\<close>

definition test_form :: transfer_form where
  "test_form =
     \<lparr> form_provider = Some (\<lambda>a. Inr 7), form_new_Contract = None,
       form_address = Some test_from, form_recipientAddress = test_to,
       form_amount = ''10'',
       form_parseEther = (\<lambda>a. if a = ''10'' then Inr 10000000000000000000 else Inl test_throw),
       form_now_getNonce = 1700000000123, form_now_deadline = 1700000000456 \<rparr>"

definition test_role :: UserRole where
  "test_role = \<lparr> isManufacturer = True, isAuditor = False, isAdmin = False \<rparr>"

section \<open>Properties of the relay\<close>

subsection \<open>One lemma for each exit of \<^verbatim>\<open>relayTransfer\<close>\<close>

lemmas relay_check_defs = address_check_def deadline_check_def currentTime_def
  recovered_signer_def signature_check_def nonce_check_def message_of_def

lemmas relay_call_defs = address_calls_def signature_call_def nonce_call_def check_calls_def

lemmas relayTransfer_defs = relayTransfer_def relayTransfer_checked_def after_def reject_def

lemmas handler_defs = handler_def handler_checked_def after_def reject_def

lemma relayTransfer_missing:
  "missing_fields req \<Longrightarrow> relayTransfer env req = (Inl MissingRequiredFields, [])"
  by (simp add: relayTransfer_def reject_def)

lemma relayTransfer_bad_address:
  "\<not> missing_fields req \<Longrightarrow> \<not> address_check env req \<Longrightarrow>
   relayTransfer env req =
     (Inl InvalidAddressFormat,
      take (if isAddress env (string_of (req_from req)) then 2 else 1) (address_calls req))"
  by (simp add: relayTransfer_defs relay_check_defs relay_call_defs)


lemma relayTransfer_recovery_throws:
  "\<not> missing_fields req \<Longrightarrow> address_check env req \<Longrightarrow> deadline_check env req \<Longrightarrow>
   recovered_signer env req = Inl err \<Longrightarrow>
   relayTransfer env req =
     (Inl (relayTransfer_catch err), address_calls req @ [Call_Date_now, signature_call req])"
  by (simp add: relayTransfer_defs relay_check_defs relay_call_defs)

lemma relayTransfer_signature_mismatch:
  "\<not> missing_fields req \<Longrightarrow> address_check env req \<Longrightarrow> deadline_check env req \<Longrightarrow>
   recovered_signer env req = Inr recovered \<Longrightarrow>
   toLowerCase recovered \<noteq> toLowerCase (string_of (req_from req)) \<Longrightarrow>
   relayTransfer env req =
     (Inl InvalidSignature, address_calls req @ [Call_Date_now, signature_call req])"
  by (simp add: relayTransfer_defs relay_check_defs relay_call_defs)

lemma relayTransfer_nonce_read_throws:
  "\<not> missing_fields req \<Longrightarrow> address_check env req \<Longrightarrow> deadline_check env req \<Longrightarrow>
   signature_check env req \<Longrightarrow> chain_nonces env (string_of (req_from req)) = Inl err \<Longrightarrow>
   relayTransfer env req = (Inl FailedToVerifyNonce, check_calls req)"
  by (simp add: relayTransfer_defs relay_check_defs relay_call_defs split: sum.splits)

lemma relayTransfer_nonce_mismatch:
  "\<not> missing_fields req \<Longrightarrow> address_check env req \<Longrightarrow> deadline_check env req \<Longrightarrow>
   signature_check env req \<Longrightarrow> chain_nonces env (string_of (req_from req)) = Inr n \<Longrightarrow>
   n \<noteq> number_of (req_nonce req) \<Longrightarrow>
   relayTransfer env req = (Inl InvalidNonce, check_calls req)"
  by (simp add: relayTransfer_defs relay_check_defs relay_call_defs split: sum.splits)

lemma relayTransfer_checks_pass:
  "\<not> missing_fields req \<Longrightarrow> address_check env req \<Longrightarrow> deadline_check env req \<Longrightarrow>
   signature_check env req \<Longrightarrow> nonce_check env req \<Longrightarrow>
   relayTransfer env req =
     after (check_calls req)
       (relayTransfer_submit env (string_of (req_from req)) (string_of (req_to req))
          (string_of (req_amount req)) (number_of (req_nonce req))
          (number_of (req_deadline req)) (string_of (req_signature req)))"
  by (simp add: relayTransfer_defs relay_check_defs relay_call_defs split: sum.splits)

subsection \<open>One lemma for each exit of \<^verbatim>\<open>handler\<close>\<close>

lemma handler_method:
  "http_method \<noteq> ''POST'' \<Longrightarrow> handler env http_method req = (Inl MethodNotAllowed, [])"
  by (simp add: handler_def reject_def)

lemma handler_missing:
  "missing_fields req \<Longrightarrow> handler env ''POST'' req = (Inl MissingRequiredFields, [])"
  by (simp add: handler_def reject_def)

lemma handler_bad_address:
  "\<not> missing_fields req \<Longrightarrow> \<not> address_check env req \<Longrightarrow>
   handler env ''POST'' req =
     (Inl InvalidAddressFormat,
      take (if isAddress env (string_of (req_from req)) then 2 else 1) (address_calls req))"
  by (simp add: handler_defs relay_check_defs relay_call_defs)


lemma handler_recovery_throws:
  "\<not> missing_fields req \<Longrightarrow> address_check env req \<Longrightarrow> deadline_check env req \<Longrightarrow>
   recovered_signer env req = Inl err \<Longrightarrow>
   handler env ''POST'' req =
     (Inl SignatureVerificationFailed, address_calls req @ [Call_Date_now, signature_call req])"
  by (simp add: handler_defs relay_check_defs relay_call_defs)

lemma handler_signature_mismatch:
  "\<not> missing_fields req \<Longrightarrow> address_check env req \<Longrightarrow> deadline_check env req \<Longrightarrow>
   recovered_signer env req = Inr recovered \<Longrightarrow>
   toLowerCase recovered \<noteq> toLowerCase (string_of (req_from req)) \<Longrightarrow>
   handler env ''POST'' req =
     (Inl InvalidSignature, address_calls req @ [Call_Date_now, signature_call req])"
  by (simp add: handler_defs relay_check_defs relay_call_defs)

lemma handler_nonce_read_throws:
  "\<not> missing_fields req \<Longrightarrow> address_check env req \<Longrightarrow> deadline_check env req \<Longrightarrow>
   signature_check env req \<Longrightarrow> chain_nonces env (string_of (req_from req)) = Inl err \<Longrightarrow>
   handler env ''POST'' req = (Inl FailedToVerifyNonce, check_calls req)"
  by (simp add: handler_defs relay_check_defs relay_call_defs split: sum.splits)

lemma handler_nonce_mismatch:
  "\<not> missing_fields req \<Longrightarrow> address_check env req \<Longrightarrow> deadline_check env req \<Longrightarrow>
   signature_check env req \<Longrightarrow> chain_nonces env (string_of (req_from req)) = Inr n \<Longrightarrow>
   n \<noteq> number_of (req_nonce req) \<Longrightarrow>
   handler env ''POST'' req = (Inl InvalidNonce, check_calls req)"
  by (simp add: handler_defs relay_check_defs relay_call_defs split: sum.splits)

lemma handler_checks_pass:
  "\<not> missing_fields req \<Longrightarrow> address_check env req \<Longrightarrow> deadline_check env req \<Longrightarrow>
   signature_check env req \<Longrightarrow> nonce_check env req \<Longrightarrow>
   handler env ''POST'' req =
     after (check_calls req)
       (handler_submit env (string_of (req_from req)) (string_of (req_to req))
          (string_of (req_amount req)) (number_of (req_nonce req))
          (number_of (req_deadline req)) (string_of (req_signature req)))"
  by (simp add: handler_defs relay_check_defs relay_call_defs split: sum.splits)

lemmas chain_defs = test_chain_def test_action_def test_revert_def test_from_def test_to_def
  test_role_def test_formatEther_def

lemmas test_defs = test_from_def test_from_checksummed_def test_to_def test_signature_def
  test_receipt_def test_tx_def test_throw_def test_env_def test_request_def

lemmas eval_defs = toLowerCase_def lower_char_def char_of_eq_iff missing_fields_def
  truthy_string_def truthy_number_def string_of_def number_of_def submission_call_def
  relayTransfer_submit_def handler_submit_def rejected_def submitted_def

subsection \<open>When a submission is made\<close>

lemma relayTransfer_submitted_iff:
  "submitted (relayTransfer env req) \<longleftrightarrow>
     \<not> missing_fields req \<and> address_check env req \<and> deadline_check env req \<and>
     signature_check env req \<and> nonce_check env req"
  by (auto simp add: relayTransfer_defs relayTransfer_submit_def submitted_def relay_check_defs
      Let_def split: sum.splits)

lemma handler_submitted_iff:
  "submitted (handler env http_method req) \<longleftrightarrow>
     http_method = ''POST'' \<and> \<not> missing_fields req \<and> address_check env req \<and>
     deadline_check env req \<and> signature_check env req \<and> nonce_check env req \<and>
     \<not> isl (formatEther env (string_of (req_amount req)))"
  by (auto simp add: handler_defs handler_submit_def submitted_def relay_check_defs
      Let_def split: sum.splits)

lemma relayTransfer_accepted_checks:
  "\<not> rejected (relayTransfer env req) \<Longrightarrow> submitted (relayTransfer env req)"
  by (auto simp add: relayTransfer_defs relayTransfer_submit_def submitted_def rejected_def
      Let_def split: sum.splits if_splits)

lemma handler_accepted_checks:
  "\<not> rejected (handler env http_method req) \<Longrightarrow> submitted (handler env http_method req)"
  by (auto simp add: handler_defs handler_submit_def submitted_def rejected_def
      Let_def split: sum.splits if_splits)

lemma relayTransfer_submit_calls:
  "\<exists>rest. snd (relayTransfer_submit env f t a n d s) = Call_transferWithSig f t a n d s # rest"
  by (simp add: relayTransfer_submit_def after_def reject_def split: sum.splits)

lemma handler_submit_calls:
  "\<not> isl (formatEther env a) \<Longrightarrow>
   \<exists>rest. snd (handler_submit env f t a n d s) =
      Call_formatEther a # Call_transferWithSig f t a n d s # rest"
  by (auto simp add: handler_submit_def after_def reject_def split: sum.splits)




subsection \<open>Order of the checks\<close>

text \<open>
  Claim C1. Whenever a run of either handler issues the \<^verbatim>\<open>transferWithSig\<close> call, the
  address-format check, the deadline check, the signature-recovery check and the nonce
  equality check have all passed, and the calls of the four checks (the two
  \<^verbatim>\<open>isAddress\<close> calls, \<^verbatim>\<open>Date.now\<close>, \<^verbatim>\<open>verifyTypedData\<close>, \<^verbatim>\<open>nonces\<close>) come first in
  the run, before the submission. A request that fails any one of the four checks is
  rejected and no submission is made.
\<close>

theorem relay_checks_before_submission:
  "(submitted (relayTransfer env req) \<longrightarrow>
      address_check env req \<and> deadline_check env req \<and> signature_check env req \<and>
      nonce_check env req \<and>
      (\<exists>rest. snd (relayTransfer env req) = check_calls req @ submission_call req # rest)) \<and>
   (submitted (handler env http_method req) \<longrightarrow>
      address_check env req \<and> deadline_check env req \<and> signature_check env req \<and>
      nonce_check env req \<and>
      (\<exists>rest. snd (handler env http_method req) =
         check_calls req @ Call_formatEther (string_of (req_amount req)) #
         submission_call req # rest)) \<and>
   (\<not> (address_check env req \<and> deadline_check env req \<and> signature_check env req \<and>
        nonce_check env req) \<longrightarrow>
      rejected (relayTransfer env req) \<and> \<not> submitted (relayTransfer env req) \<and>
      rejected (handler env http_method req) \<and> \<not> submitted (handler env http_method req))"
proof (intro conjI impI)
  assume s: "submitted (relayTransfer env req)"
  then have c: "\<not> missing_fields req" "address_check env req" "deadline_check env req"
      "signature_check env req" "nonce_check env req"
    by (simp_all add: relayTransfer_submitted_iff)
  from c show "address_check env req" "deadline_check env req" "signature_check env req"
      "nonce_check env req"
    by simp_all
  from relayTransfer_submit_calls obtain rest where
    "snd (relayTransfer_submit env (string_of (req_from req)) (string_of (req_to req))
          (string_of (req_amount req)) (number_of (req_nonce req))
          (number_of (req_deadline req)) (string_of (req_signature req))) =
     submission_call req # rest"
    unfolding submission_call_def by blast
  then show "\<exists>rest. snd (relayTransfer env req) = check_calls req @ submission_call req # rest"
    by (simp add: relayTransfer_checks_pass [OF c] after_def)
next
  assume s: "submitted (handler env http_method req)"
  then have m: "http_method = ''POST''" and f: "\<not> isl (formatEther env (string_of (req_amount req)))"
    and c: "\<not> missing_fields req" "address_check env req" "deadline_check env req"
      "signature_check env req" "nonce_check env req"
    by (simp_all add: handler_submitted_iff)
  from c show "address_check env req" "deadline_check env req" "signature_check env req"
      "nonce_check env req"
    by simp_all
  from handler_submit_calls [OF f] obtain rest where
    "snd (handler_submit env (string_of (req_from req)) (string_of (req_to req))
          (string_of (req_amount req)) (number_of (req_nonce req))
          (number_of (req_deadline req)) (string_of (req_signature req))) =
     Call_formatEther (string_of (req_amount req)) # submission_call req # rest"
    unfolding submission_call_def by blast
  then show "\<exists>rest. snd (handler env http_method req) =
         check_calls req @ Call_formatEther (string_of (req_amount req)) #
         submission_call req # rest"
    by (simp add: m handler_checks_pass [OF c] after_def)
next
  assume n: "\<not> (address_check env req \<and> deadline_check env req \<and> signature_check env req \<and>
        nonce_check env req)"
  then show r: "\<not> submitted (relayTransfer env req)"
    by (auto simp add: relayTransfer_submitted_iff)
  from n show h: "\<not> submitted (handler env http_method req)"
    by (auto simp add: handler_submitted_iff)
  from r show "rejected (relayTransfer env req)"
    using relayTransfer_accepted_checks by blast
  from h show "rejected (handler env http_method req)"
    using handler_accepted_checks by blast
qed

theorem relay_checks_before_submission_witness:
  "submitted (relayTransfer test_env test_request) \<and>
   submitted (handler test_env ''POST'' test_request) \<and>
   address_check test_env test_request \<and> deadline_check test_env test_request \<and>
   signature_check test_env test_request \<and> nonce_check test_env test_request \<and>
   \<not> nonce_check test_env (test_request\<lparr>req_nonce := Some 5\<rparr>) \<and>
   rejected (relayTransfer test_env (test_request\<lparr>req_nonce := Some 5\<rparr>)) \<and>
   \<not> submitted (relayTransfer test_env (test_request\<lparr>req_nonce := Some 5\<rparr>)) \<and>
   rejected (handler test_env ''POST'' (test_request\<lparr>req_nonce := Some 5\<rparr>)) \<and>
   \<not> submitted (handler test_env ''POST'' (test_request\<lparr>req_nonce := Some 5\<rparr>))"
proof -
  have s: "submitted (relayTransfer test_env test_request)"
    by (simp add: test_defs relayTransfer_defs eval_defs)
  have h: "submitted (handler test_env ''POST'' test_request)"
    by (simp add: test_defs handler_defs eval_defs)
  have n: "\<not> nonce_check test_env (test_request\<lparr>req_nonce := Some 5\<rparr>)"
    by (simp add: test_defs nonce_check_def number_of_def)
  show ?thesis
    using relay_checks_before_submission [of test_env test_request "''POST''"]
      relay_checks_before_submission [of test_env "test_request\<lparr>req_nonce := Some 5\<rparr>" "''POST''"]
      s h n
    by blast
qed

subsection \<open>The deadline check\<close>



subsection \<open>The presence check\<close>

lemma missing_fields_iff:
  "missing_fields req \<longleftrightarrow>
     req_from req \<in> {None, Some []} \<or> req_to req \<in> {None, Some []} \<or>
     req_amount req \<in> {None, Some []} \<or> req_nonce req = None \<or>
     req_deadline req \<in> {None, Some 0} \<or> req_signature req \<in> {None, Some []}"
  by (auto simp add: missing_fields_def truthy_string_def truthy_number_def split: option.splits)

lemma relayTransfer_missing_iff:
  "fst (relayTransfer env req) = Inl MissingRequiredFields \<longleftrightarrow> missing_fields req"
  by (auto simp add: relayTransfer_defs relayTransfer_submit_def relayTransfer_catch_def
      Let_def split: sum.splits if_splits)

lemma handler_missing_iff:
  "fst (handler env ''POST'' req) = Inl MissingRequiredFields \<longleftrightarrow> missing_fields req"
  by (auto simp add: handler_defs handler_submit_def handler_catch_def
      Let_def split: sum.splits if_splits)

lemma validate_missing_iff:
  "(Missing_from \<in> set (snd (validateGaslessTransferData venv req)) \<longleftrightarrow> req_from req \<in> {None, Some []}) \<and>
   (Missing_to \<in> set (snd (validateGaslessTransferData venv req)) \<longleftrightarrow> req_to req \<in> {None, Some []}) \<and>
   (Missing_amount \<in> set (snd (validateGaslessTransferData venv req)) \<longleftrightarrow> req_amount req \<in> {None, Some []}) \<and>
   (Missing_nonce \<in> set (snd (validateGaslessTransferData venv req)) \<longleftrightarrow> req_nonce req = None) \<and>
   (Missing_deadline \<in> set (snd (validateGaslessTransferData venv req)) \<longleftrightarrow> req_deadline req \<in> {None, Some 0}) \<and>
   (Missing_signature \<in> set (snd (validateGaslessTransferData venv req)) \<longleftrightarrow> req_signature req \<in> {None, Some []})"
  apply (simp add: validateGaslessTransferData_def Let_def push_if_def truthy_string_def truthy_number_def
      Missing_from_def Missing_to_def Missing_amount_def Missing_nonce_def Missing_deadline_def Missing_signature_def quoted_def
      split: option.splits sum.splits)
  done


text \<open>
  Claim C10, as amended. The presence check is asymmetric. The nonce is tested against
  \<^verbatim>\<open>undefined\<close> only, so a nonce of 0 passes like any other number. The other five
  properties are tested by truthiness: an absent or empty \<^verbatim>\<open>from\<close>, \<^verbatim>\<open>to\<close>,
  \<^verbatim>\<open>amount\<close> or \<^verbatim>\<open>signature\<close> and an absent or zero \<^verbatim>\<open>deadline\<close> are rejected as
  missing. The amount is a string, and the non-empty string \<^verbatim>\<open>0\<close> is truthy: it passes
  the presence check like the string \<^verbatim>\<open>1\<close>. Both handlers answer
  \<^verbatim>\<open>Missing required fields\<close> exactly when this check fails, and
  \<^verbatim>\<open>validateGaslessTransferData\<close> reports each property as missing under the same
  conditions.
\<close>

theorem presence_check_truthiness:
  "(missing_fields req \<longleftrightarrow>
      req_from req \<in> {None, Some []} \<or> req_to req \<in> {None, Some []} \<or>
      req_amount req \<in> {None, Some []} \<or> req_nonce req = None \<or>
      req_deadline req \<in> {None, Some 0} \<or> req_signature req \<in> {None, Some []}) \<and>
   (fst (relayTransfer env req) = Inl MissingRequiredFields \<longleftrightarrow> missing_fields req) \<and>
   (fst (handler env ''POST'' req) = Inl MissingRequiredFields \<longleftrightarrow> missing_fields req) \<and>
   (missing_fields (req\<lparr>req_nonce := Some 0\<rparr>) \<longleftrightarrow> missing_fields (req\<lparr>req_nonce := Some n\<rparr>)) \<and>
   (missing_fields (req\<lparr>req_amount := Some ''0''\<rparr>) \<longleftrightarrow>
      missing_fields (req\<lparr>req_amount := Some ''1''\<rparr>)) \<and>
   missing_fields (req\<lparr>req_amount := Some []\<rparr>) \<and>
   missing_fields (req\<lparr>req_deadline := Some 0\<rparr>) \<and>
   missing_fields (req\<lparr>req_from := Some []\<rparr>) \<and>
   missing_fields (req\<lparr>req_to := Some []\<rparr>) \<and>
   missing_fields (req\<lparr>req_signature := Some []\<rparr>) \<and>
   (Missing_from \<in> set (snd (validateGaslessTransferData venv req)) \<longleftrightarrow>
      req_from req \<in> {None, Some []}) \<and>
   (Missing_to \<in> set (snd (validateGaslessTransferData venv req)) \<longleftrightarrow>
      req_to req \<in> {None, Some []}) \<and>
   (Missing_amount \<in> set (snd (validateGaslessTransferData venv req)) \<longleftrightarrow>
      req_amount req \<in> {None, Some []}) \<and>
   (Missing_nonce \<in> set (snd (validateGaslessTransferData venv req)) \<longleftrightarrow>
      req_nonce req = None) \<and>
   (Missing_deadline \<in> set (snd (validateGaslessTransferData venv req)) \<longleftrightarrow>
      req_deadline req \<in> {None, Some 0}) \<and>
   (Missing_signature \<in> set (snd (validateGaslessTransferData venv req)) \<longleftrightarrow>
      req_signature req \<in> {None, Some []})"
proof -
  have fields: "(missing_fields (req\<lparr>req_nonce := Some 0\<rparr>) \<longleftrightarrow>
        missing_fields (req\<lparr>req_nonce := Some n\<rparr>)) \<and>
      (missing_fields (req\<lparr>req_amount := Some ''0''\<rparr>) \<longleftrightarrow>
        missing_fields (req\<lparr>req_amount := Some ''1''\<rparr>)) \<and>
      missing_fields (req\<lparr>req_amount := Some []\<rparr>) \<and>
      missing_fields (req\<lparr>req_deadline := Some 0\<rparr>) \<and>
      missing_fields (req\<lparr>req_from := Some []\<rparr>) \<and>
      missing_fields (req\<lparr>req_to := Some []\<rparr>) \<and>
      missing_fields (req\<lparr>req_signature := Some []\<rparr>)"
    by (simp add: missing_fields_def truthy_string_def truthy_number_def)
  show ?thesis
    using validate_missing_iff [of venv req] fields
    by (simp add: relayTransfer_missing_iff handler_missing_iff missing_fields_iff [of req])
qed

theorem presence_check_truthiness_witness:
  "\<not> missing_fields test_request \<and> req_nonce test_request = Some 0 \<and>
   fst (relayTransfer test_env test_request) \<noteq> Inl MissingRequiredFields \<and>
   fst (handler test_env ''POST'' test_request) \<noteq> Inl MissingRequiredFields \<and>
   missing_fields (test_request\<lparr>req_deadline := Some 0\<rparr>) \<and>
   fst (relayTransfer test_env (test_request\<lparr>req_deadline := Some 0\<rparr>)) =
     Inl MissingRequiredFields \<and>
   fst (handler test_env ''POST'' (test_request\<lparr>req_deadline := Some 0\<rparr>)) =
     Inl MissingRequiredFields \<and>
   Missing_deadline \<in>
     set (snd (validateGaslessTransferData test_validation_env
                 (test_request\<lparr>req_deadline := Some 0\<rparr>)))"
proof -
  let ?z = "test_request\<lparr>req_deadline := Some 0\<rparr>"
  have m: "\<not> missing_fields test_request" "req_nonce test_request = Some 0"
    by (simp_all add: test_defs missing_fields_def truthy_string_def truthy_number_def)
  have d: "req_deadline ?z = Some 0"
    by simp
  show ?thesis
    using presence_check_truthiness [of test_request test_env 0 test_validation_env]
      presence_check_truthiness [of ?z test_env 0 test_validation_env] m d
    by simp
qed

text \<open>
  The claim as stated fails for the amount: a request whose amount is the string
  \<^verbatim>\<open>0\<close> passes the presence check of both handlers (here it is even relayed), and
  \<^verbatim>\<open>validateGaslessTransferData\<close> reports it as a non-positive amount, not as missing.
\<close>

theorem presence_check_amount_zero_counterexample:
  "\<not> missing_fields (test_request\<lparr>req_amount := Some ''0''\<rparr>) \<and>
   fst (relayTransfer test_env (test_request\<lparr>req_amount := Some ''0''\<rparr>)) \<noteq>
     Inl MissingRequiredFields \<and>
   fst (handler test_env ''POST'' (test_request\<lparr>req_amount := Some ''0''\<rparr>)) \<noteq>
     Inl MissingRequiredFields \<and>
   snd (validateGaslessTransferData test_validation_env
          (test_request\<lparr>req_amount := Some ''0''\<rparr>)) = [''Amount must be greater than 0'']"
proof -
  let ?r = "test_request\<lparr>req_amount := Some ''0''\<rparr>"
  have m: "\<not> missing_fields ?r"
    by (simp add: test_defs missing_fields_def truthy_string_def truthy_number_def)
  have "fst (relayTransfer test_env ?r) = Inr \<lparr> ok_txHash = ''0xfeed'', ok_blockNumber = None \<rparr>"
    by (simp add: test_defs relayTransfer_defs eval_defs)
  moreover have
    "fst (handler test_env ''POST'' ?r) =
       Inr \<lparr> ok_txHash = ''0xfeed'', ok_blockNumber = Some 100 \<rparr>"
    by (simp add: test_defs handler_defs eval_defs)
  moreover have "snd (validateGaslessTransferData test_validation_env ?r) =
      [''Amount must be greater than 0'']"
    by (simp add: test_defs test_validation_env_def validateGaslessTransferData_def push_if_def
        startsWith_def eval_defs)
  ultimately show ?thesis
    using m by simp
qed

subsection \<open>The signature check\<close>

lemma relayTransfer_recovers:
  "\<not> missing_fields req \<Longrightarrow> address_check env req \<Longrightarrow> deadline_check env req \<Longrightarrow>
   signature_call req \<in> set (snd (relayTransfer env req))"
  by (simp add: relayTransfer_defs relay_check_defs relay_call_defs Let_def)

lemma handler_recovers:
  "\<not> missing_fields req \<Longrightarrow> address_check env req \<Longrightarrow> deadline_check env req \<Longrightarrow>
   signature_call req \<in> set (snd (handler env ''POST'' req))"
  by (simp add: handler_defs relay_check_defs relay_call_defs Let_def)

lemma relayTransfer_invalid_signature_iff:
  "fst (relayTransfer env req) = Inl InvalidSignature \<longleftrightarrow>
     \<not> missing_fields req \<and> address_check env req \<and> deadline_check env req \<and>
     (\<exists>recovered. recovered_signer env req = Inr recovered \<and>
        toLowerCase recovered \<noteq> toLowerCase (string_of (req_from req)))"
  by (auto simp add: relayTransfer_defs relayTransfer_submit_def relayTransfer_catch_def
      relay_check_defs Let_def split: sum.splits if_splits)

lemma handler_invalid_signature_iff:
  "fst (handler env ''POST'' req) = Inl InvalidSignature \<longleftrightarrow>
     \<not> missing_fields req \<and> address_check env req \<and> deadline_check env req \<and>
     (\<exists>recovered. recovered_signer env req = Inr recovered \<and>
        toLowerCase recovered \<noteq> toLowerCase (string_of (req_from req)))"
  by (auto simp add: handler_defs handler_submit_def handler_catch_def
      relay_check_defs Let_def split: sum.splits if_splits)

text \<open>
  Claim C2, as amended. For a request that passes the presence, address and deadline
  checks, either handler recovers the signer with \<^verbatim>\<open>verifyTypedData\<close> from the fixed
  domain, the \<^verbatim>\<open>Transfer\<close> type, the message made of the request's \<^verbatim>\<open>from\<close>,
  \<^verbatim>\<open>to\<close>, \<^verbatim>\<open>amount\<close>, \<^verbatim>\<open>nonce\<close>, \<^verbatim>\<open>deadline\<close>, and the signature. When recovery
  returns an address, the request is rejected with \<^verbatim>\<open>Invalid signature\<close> exactly when
  that address differs from \<^verbatim>\<open>from\<close> after lower-casing both. When recovery throws,
  the request is rejected as well: by \<^verbatim>\<open>handler\<close> with
  \<^verbatim>\<open>Signature verification failed\<close>, by \<^verbatim>\<open>relayTransfer\<close> through its general error
  handler. For every request whatsoever, nothing is submitted and nothing is accepted
  unless the recovered address equals \<^verbatim>\<open>from\<close> up to case.
\<close>

theorem relay_signature_check:
  "(\<not> missing_fields req \<and> address_check env req \<and> deadline_check env req \<longrightarrow>
      signature_call req \<in> set (snd (relayTransfer env req)) \<and>
      signature_call req \<in> set (snd (handler env ''POST'' req)) \<and>
      (\<forall>recovered. recovered_signer env req = Inr recovered \<longrightarrow>
         (fst (relayTransfer env req) = Inl InvalidSignature \<longleftrightarrow>
            toLowerCase recovered \<noteq> toLowerCase (string_of (req_from req))) \<and>
         (fst (handler env ''POST'' req) = Inl InvalidSignature \<longleftrightarrow>
            toLowerCase recovered \<noteq> toLowerCase (string_of (req_from req)))) \<and>
      (\<forall>err. recovered_signer env req = Inl err \<longrightarrow>
         relayTransfer env req =
           (Inl (relayTransfer_catch err),
            address_calls req @ [Call_Date_now, signature_call req]) \<and>
         handler env ''POST'' req =
           (Inl SignatureVerificationFailed,
            address_calls req @ [Call_Date_now, signature_call req]))) \<and>
   (submitted (relayTransfer env req) \<or> submitted (handler env http_method req) \<or>
    \<not> rejected (relayTransfer env req) \<or> \<not> rejected (handler env http_method req) \<longrightarrow>
      (\<exists>recovered. recovered_signer env req = Inr recovered \<and>
         toLowerCase recovered = toLowerCase (string_of (req_from req)))) \<and>
   error_text InvalidSignature = ''Invalid signature''"
proof (intro conjI impI allI)
  assume c: "\<not> missing_fields req \<and> address_check env req \<and> deadline_check env req"
  then show "signature_call req \<in> set (snd (relayTransfer env req))"
    by (simp add: relayTransfer_recovers)
  from c show "signature_call req \<in> set (snd (handler env ''POST'' req))"
    by (simp add: handler_recovers)
  {
    fix recovered
    assume r: "recovered_signer env req = Inr recovered"
    from c r show "fst (relayTransfer env req) = Inl InvalidSignature \<longleftrightarrow>
        toLowerCase recovered \<noteq> toLowerCase (string_of (req_from req))"
      by (simp add: relayTransfer_invalid_signature_iff)
    from c r show "fst (handler env ''POST'' req) = Inl InvalidSignature \<longleftrightarrow>
        toLowerCase recovered \<noteq> toLowerCase (string_of (req_from req))"
      by (simp add: handler_invalid_signature_iff)
  }
  {
    fix err
    assume e: "recovered_signer env req = Inl err"
    from c e show "relayTransfer env req =
        (Inl (relayTransfer_catch err), address_calls req @ [Call_Date_now, signature_call req])"
      by (simp add: relayTransfer_recovery_throws)
    from c e show "handler env ''POST'' req =
        (Inl SignatureVerificationFailed, address_calls req @ [Call_Date_now, signature_call req])"
      by (simp add: handler_recovery_throws)
  }
next
  assume "submitted (relayTransfer env req) \<or> submitted (handler env http_method req) \<or>
    \<not> rejected (relayTransfer env req) \<or> \<not> rejected (handler env http_method req)"
  then have "submitted (relayTransfer env req) \<or> submitted (handler env http_method req)"
    using relayTransfer_accepted_checks [of env req] handler_accepted_checks [of env http_method req]
    by blast
  then have "signature_check env req"
    by (auto simp add: relayTransfer_submitted_iff handler_submitted_iff)
  then show "\<exists>recovered. recovered_signer env req = Inr recovered \<and>
         toLowerCase recovered = toLowerCase (string_of (req_from req))"
    by (simp add: signature_check_def split: sum.splits)
next
  show "error_text InvalidSignature = ''Invalid signature''"
    by simp
qed

theorem relay_signature_check_witness:
  "\<not> missing_fields test_request \<and> address_check test_env test_request \<and>
   deadline_check test_env test_request \<and>
   recovered_signer test_env test_request = Inr test_from_checksummed \<and>
   toLowerCase test_from_checksummed = toLowerCase test_from \<and>
   fst (relayTransfer test_env test_request) \<noteq> Inl InvalidSignature \<and>
   recovered_signer test_env (test_request\<lparr>req_signature := Some ''0xbad''\<rparr>) = Inr test_to \<and>
   fst (relayTransfer test_env (test_request\<lparr>req_signature := Some ''0xbad''\<rparr>)) =
     Inl InvalidSignature \<and>
   fst (handler test_env ''POST'' (test_request\<lparr>req_signature := Some ''0xbad''\<rparr>)) =
     Inl InvalidSignature \<and>
   fst (handler test_env ''POST'' (test_request\<lparr>req_signature := Some ''0x''\<rparr>)) =
     Inl SignatureVerificationFailed"
proof -
  let ?bad = "test_request\<lparr>req_signature := Some ''0xbad''\<rparr>"
  let ?thr = "test_request\<lparr>req_signature := Some ''0x''\<rparr>"
  have c: "\<not> missing_fields test_request \<and> address_check test_env test_request \<and>
      deadline_check test_env test_request"
    "\<not> missing_fields ?bad \<and> address_check test_env ?bad \<and> deadline_check test_env ?bad"
    "\<not> missing_fields ?thr \<and> address_check test_env ?thr \<and> deadline_check test_env ?thr"
    by (simp_all add: test_defs relay_check_defs eval_defs)
  have r: "recovered_signer test_env test_request = Inr test_from_checksummed"
    "recovered_signer test_env ?bad = Inr test_to"
    "recovered_signer test_env ?thr = Inl test_throw"
    by (simp_all add: test_env_def test_request_def test_signature_def recovered_signer_def
        string_of_def)
  have l: "toLowerCase test_from_checksummed = toLowerCase test_from"
    "toLowerCase test_to \<noteq> toLowerCase test_from"
    by (simp_all add: test_defs eval_defs)
  have f: "string_of (req_from test_request) = test_from" "string_of (req_from ?bad) = test_from"
    by (simp_all add: test_request_def string_of_def)
  show ?thesis
    using relay_signature_check [of test_request test_env "''POST''"]
      relay_signature_check [of ?bad test_env "''POST''"]
      relay_signature_check [of ?thr test_env "''POST''"] c r l f
    by simp
qed

text \<open>
  The claim as stated, for every request, fails: a request whose signature recovers to
  another address but whose deadline has passed is rejected with the deadline error, and
  its signer is never recovered; and a request whose recovery throws is rejected by
  \<^verbatim>\<open>relayTransfer\<close> with the thrown error's own message.
\<close>

theorem relay_signature_check_counterexample:
  "recovered_signer test_env
     (test_request\<lparr>req_deadline := Some 1699999999, req_signature := Some ''0xbad''\<rparr>) =
     Inr test_to \<and>
   toLowerCase test_to \<noteq> toLowerCase test_from \<and>
   relayTransfer test_env
     (test_request\<lparr>req_deadline := Some 1699999999, req_signature := Some ''0xbad''\<rparr>) =
     (Inl DeadlinePassed, [Call_isAddress test_from, Call_isAddress test_to, Call_Date_now]) \<and>
   handler test_env ''POST''
     (test_request\<lparr>req_deadline := Some 1699999999, req_signature := Some ''0xbad''\<rparr>) =
     (Inl DeadlinePassed, [Call_isAddress test_from, Call_isAddress test_to, Call_Date_now]) \<and>
   recovered_signer test_env (test_request\<lparr>req_signature := Some ''0x''\<rparr>) = Inl test_throw \<and>
   fst (relayTransfer test_env (test_request\<lparr>req_signature := Some ''0x''\<rparr>)) =
     Inl (OtherError ''invalid raw signature length'')"
  by (simp add: test_defs relayTransfer_defs handler_defs recovered_signer_def eval_defs
      relayTransfer_catch_def message_includes_def message_or_def str_includes_def startsWith_def)

subsection \<open>The nonce check\<close>

lemma relayTransfer_rejected_unless_nonce:
  "\<not> nonce_check env req \<Longrightarrow>
   rejected (relayTransfer env req) \<and> \<not> submitted (relayTransfer env req) \<and>
   rejected (handler env http_method req) \<and> \<not> submitted (handler env http_method req)"
  using relayTransfer_accepted_checks [of env req] handler_accepted_checks [of env http_method req]
  by (auto simp add: relayTransfer_submitted_iff handler_submitted_iff)

text \<open>
  Claim C4, as amended. Every request whose nonce differs from the on-chain nonce read
  for its \<^verbatim>\<open>from\<close> address is rejected by both handlers without any submission; when
  it passes the presence, address, deadline and signature checks, the rejection is
  \<^verbatim>\<open>Invalid nonce\<close>, returned right after the nonce read. Consequently, once a request
  has been accepted and the chain's nonce for its \<^verbatim>\<open>from\<close> has moved past the
  request's nonce (the contract's nonces only grow), any request with the same
  \<^verbatim>\<open>from\<close> and the same nonce is rejected without submission, whichever of the two
  came first.
\<close>

theorem relay_nonce_check:
  "(chain_nonces env (string_of (req_from req)) = Inr n \<and> n \<noteq> number_of (req_nonce req) \<longrightarrow>
      rejected (relayTransfer env req) \<and> \<not> submitted (relayTransfer env req) \<and>
      rejected (handler env http_method req) \<and> \<not> submitted (handler env http_method req) \<and>
      (\<not> missing_fields req \<and> address_check env req \<and> deadline_check env req \<and>
       signature_check env req \<longrightarrow>
         relayTransfer env req = (Inl InvalidNonce, check_calls req) \<and>
         handler env ''POST'' req = (Inl InvalidNonce, check_calls req))) \<and>
   ((\<not> rejected (relayTransfer env req) \<or> \<not> rejected (handler env http_method req)) \<and>
    req_from req' = req_from req \<and> req_nonce req' = req_nonce req \<and>
    (\<forall>n'. chain_nonces env' (string_of (req_from req)) = Inr n' \<longrightarrow>
       number_of (req_nonce req) < n') \<longrightarrow>
      rejected (relayTransfer env' req') \<and> \<not> submitted (relayTransfer env' req') \<and>
      rejected (handler env' http_method' req') \<and> \<not> submitted (handler env' http_method' req')) \<and>
   error_text InvalidNonce = ''Invalid nonce''"
proof (intro conjI impI)
  assume a: "chain_nonces env (string_of (req_from req)) = Inr n \<and> n \<noteq> number_of (req_nonce req)"
  then have n: "\<not> nonce_check env req"
    by (auto simp add: nonce_check_def)
  from relayTransfer_rejected_unless_nonce [OF n, of http_method]
  show "rejected (relayTransfer env req)" "\<not> submitted (relayTransfer env req)"
    "rejected (handler env http_method req)" "\<not> submitted (handler env http_method req)"
    by simp_all
  assume c: "\<not> missing_fields req \<and> address_check env req \<and> deadline_check env req \<and>
       signature_check env req"
  from a c show "relayTransfer env req = (Inl InvalidNonce, check_calls req)"
    by (simp add: relayTransfer_nonce_mismatch)
  from a c show "handler env ''POST'' req = (Inl InvalidNonce, check_calls req)"
    by (simp add: handler_nonce_mismatch)
next
  assume a: "(\<not> rejected (relayTransfer env req) \<or> \<not> rejected (handler env http_method req)) \<and>
    req_from req' = req_from req \<and> req_nonce req' = req_nonce req \<and>
    (\<forall>n'. chain_nonces env' (string_of (req_from req)) = Inr n' \<longrightarrow>
       number_of (req_nonce req) < n')"
  then have "\<not> nonce_check env' req'"
    by (auto simp add: nonce_check_def)
  from relayTransfer_rejected_unless_nonce [OF this, of http_method']
  show "rejected (relayTransfer env' req')" "\<not> submitted (relayTransfer env' req')"
    "rejected (handler env' http_method' req')" "\<not> submitted (handler env' http_method' req')"
    by simp_all
next
  show "error_text InvalidNonce = ''Invalid nonce''"
    by simp
qed

theorem relay_nonce_check_witness:
  "chain_nonces test_env test_from = Inr 0 \<and>
   relayTransfer test_env (test_request\<lparr>req_nonce := Some 5\<rparr>) =
     (Inl InvalidNonce, check_calls (test_request\<lparr>req_nonce := Some 5\<rparr>)) \<and>
   handler test_env ''POST'' (test_request\<lparr>req_nonce := Some 5\<rparr>) =
     (Inl InvalidNonce, check_calls (test_request\<lparr>req_nonce := Some 5\<rparr>)) \<and>
   \<not> rejected (relayTransfer test_env test_request) \<and>
   chain_nonces (test_env\<lparr>chain_nonces := (\<lambda>a. Inr 1)\<rparr>) test_from = Inr 1 \<and>
   rejected (relayTransfer (test_env\<lparr>chain_nonces := (\<lambda>a. Inr 1)\<rparr>) test_request) \<and>
   \<not> submitted (relayTransfer (test_env\<lparr>chain_nonces := (\<lambda>a. Inr 1)\<rparr>) test_request) \<and>
   rejected (handler (test_env\<lparr>chain_nonces := (\<lambda>a. Inr 1)\<rparr>) ''POST'' test_request) \<and>
   \<not> submitted (handler (test_env\<lparr>chain_nonces := (\<lambda>a. Inr 1)\<rparr>) ''POST'' test_request)"
proof -
  let ?five = "test_request\<lparr>req_nonce := Some 5\<rparr>"
  let ?later = "test_env\<lparr>chain_nonces := (\<lambda>a. Inr 1)\<rparr>"
  have f: "string_of (req_from ?five) = test_from" "string_of (req_from test_request) = test_from"
      "number_of (req_nonce ?five) = 5" "number_of (req_nonce test_request) = 0"
    by (simp_all add: test_request_def string_of_def number_of_def)
  have n: "chain_nonces test_env test_from = Inr 0" "chain_nonces ?later test_from = Inr 1"
    by (simp_all add: test_env_def)
  have c: "\<not> missing_fields ?five \<and> address_check test_env ?five \<and>
      deadline_check test_env ?five \<and> signature_check test_env ?five"
    by (simp add: test_defs relay_check_defs eval_defs)
  have a: "\<not> rejected (relayTransfer test_env test_request)"
    by (simp add: test_defs relayTransfer_defs eval_defs)
  show ?thesis
    using relay_nonce_check [of test_env ?five 0 "''POST''" ?five test_env "''POST''"]
      relay_nonce_check [of test_env test_request 0 "''POST''" test_request ?later "''POST''"]
      f n c a
    by simp
qed

text \<open>
  The claim as stated, for every request, fails: a request whose nonce differs from the
  on-chain nonce but whose deadline has passed is rejected with the deadline error, before
  the nonce is read.
\<close>

theorem relay_nonce_check_counterexample:
  "chain_nonces test_env test_from = Inr 0 \<and>
   req_nonce (test_request\<lparr>req_deadline := Some 1699999999, req_nonce := Some 5\<rparr>) = Some 5 \<and>
   relayTransfer test_env
     (test_request\<lparr>req_deadline := Some 1699999999, req_nonce := Some 5\<rparr>) =
     (Inl DeadlinePassed, [Call_isAddress test_from, Call_isAddress test_to, Call_Date_now]) \<and>
   handler test_env ''POST''
     (test_request\<lparr>req_deadline := Some 1699999999, req_nonce := Some 5\<rparr>) =
     (Inl DeadlinePassed, [Call_isAddress test_from, Call_isAddress test_to, Call_Date_now])"
  by (simp add: test_defs relayTransfer_defs handler_def handler_checked_def eval_defs)

section \<open>Properties of the cache\<close>

subsection \<open>Effects\<close>

lemma apply_effects_Nil [simp]: "apply_effects st [] = st"
  by (simp add: apply_effects_def)

lemma apply_effects_Cons [simp]: "apply_effects st (e # es) = apply_effects (apply_effect st e) es"
  by (simp add: apply_effects_def)

lemma apply_effects_append: "apply_effects st (es @ fs) = apply_effects (apply_effects st es) fs"
  by (simp add: apply_effects_def)

lemma apply_effect_no_setter:
  "\<not> is_setter e \<Longrightarrow>
   userRole (apply_effect st e) = userRole st \<and> userActions (apply_effect st e) = userActions st \<and>
   roleEvents (apply_effect st e) = roleEvents st \<and> tokenBalance (apply_effect st e) = tokenBalance st"
  by (cases e) simp_all

lemma apply_effects_no_setter:
  "list_all (\<lambda>e. \<not> is_setter e) es \<Longrightarrow>
   userRole (apply_effects st es) = userRole st \<and>
   userActions (apply_effects st es) = userActions st \<and>
   roleEvents (apply_effects st es) = roleEvents st \<and>
   tokenBalance (apply_effects st es) = tokenBalance st"
  by (induction es arbitrary: st) (simp_all add: apply_effect_no_setter)

lemma apply_effect_no_log: "\<not> is_log e \<Longrightarrow> console (apply_effect st e) = console st"
  by (cases e) simp_all

lemma apply_effects_no_log:
  "list_all (\<lambda>e. \<not> is_log e) es \<Longrightarrow> console (apply_effects st es) = console st"
  by (induction es arbitrary: st) (simp_all add: apply_effect_no_log)

subsection \<open>The probe loop of \<^verbatim>\<open>loadUserActions\<close>\<close>

lemma probe_actions_run:
  assumes hit: "\<And>j. j < N \<Longrightarrow> manufacturerActions c a j = Inr (records j)"
    and miss: "manufacturerActions c a N = Inl err"
  shows "i \<le> N \<Longrightarrow>
    probe_actions c a i actions reads =
      Some (actions @ map (\<lambda>j. to_EcoAction (records j)) [i ..< N],
            reads @ map (Read_manufacturerActions a) [i ..< Suc N])"
proof (induction "N - i" arbitrary: i actions reads)
  case 0
  then have "i = N" by simp
  then show ?case
    by (subst probe_actions.simps) (simp add: miss)
next
  case (Suc k)
  then have lt: "i < N" and k: "k = N - Suc i" and le: "Suc i \<le> N"
    by simp_all
  have step: "probe_actions c a i actions reads =
      probe_actions c a (i + 1) (actions @ [to_EcoAction (records i)])
        (reads @ [Read_manufacturerActions a i])"
    by (subst probe_actions.simps) (simp add: hit [OF lt])
  have l1: "[i ..< N] = i # [Suc i ..< N]"
    using lt by (simp add: upt_conv_Cons)
  have l2: "[i ..< Suc N] = i # [Suc i ..< Suc N]"
    using lt by (simp add: upt_conv_Cons)
  show ?case
    unfolding step using Suc.hyps(1) [OF k le] l1 l2 by simp
qed


lemma probe_reads_quiet:
  "list_all (\<lambda>e. \<not> is_setter e) (map (Read_manufacturerActions a) js) \<and>
   list_all (\<lambda>e. \<not> is_log e) (map (Read_manufacturerActions a) js)"
  by (induction js) simp_all

lemma bit_length_le: "n < 2 ^ k \<Longrightarrow> bit_length n \<le> k"
proof (induction k arbitrary: n)
  case 0
  then show ?case
    by (simp add: bit_length.simps)
next
  case (Suc k)
  then have "n div 2 < 2 ^ k"
    by simp
  then have "bit_length (n div 2) \<le> k"
    by (rule Suc.IH)
  then show ?case
    by (subst bit_length.simps) simp
qed

lemma Number_of_bigint_exact: "\<bar>i\<bar> < 2 ^ 53 \<Longrightarrow> Number_of_bigint i = i"
proof -
  assume a: "\<bar>i\<bar> < 2 ^ 53"
  then have "nat \<bar>i\<bar> < 2 ^ 53"
    by (simp add: nat_less_iff)
  then have "bit_length (nat \<bar>i\<bar>) \<le> 53"
    by (rule bit_length_le)
  then have "Number_of_nat (nat \<bar>i\<bar>) = nat \<bar>i\<bar>"
    by (simp add: Number_of_nat_def)
  then show ?thesis
    by (cases "i < 0") (simp_all add: Number_of_bigint_def)
qed

text \<open>
  Claim C5, as amended. Given records at the indices \<open>0 .. N - 1\<close> and a read that throws
  at index \<open>N\<close>: when the address is set and the cached role set marks the account a
  manufacturer, \<^verbatim>\<open>loadUserActions\<close> returns; it reads the indices \<open>0, 1, .., N\<close> in this
  order, and then stores exactly \<open>N\<close> entries, the entry at index \<open>j\<close> carrying the
  description, evidence hash and verified flag of record \<open>j\<close> and its amount through
  \<^verbatim>\<open>Number\<close> (the amount itself when its magnitude is below \<open>2 ^ 53\<close>). The throwing
  read ends the loop; nothing is logged for it. When the address is not set or the cached
  role set does not mark the account a manufacturer, and when the contract is null, the
  loader makes no read and stores nothing.
\<close>

theorem loadUserActions_probe:
  assumes "\<forall>j<N. manufacturerActions c (string_of address) j = Inr (records j)"
    and "manufacturerActions c (string_of address) N = Inl err"
  shows
   "(truthy_string address \<and> isManufacturer role_now \<longrightarrow>
      loadUserActions (Some c) address role_now =
        Some (map (Read_manufacturerActions (string_of address)) [0 ..< Suc N] @
              [setUserActions (map (\<lambda>j.
                 \<lparr> description = act_description (records j),
                   reductionAmount = Number_of_bigint (act_reductionAmount (records j)),
                   ipfsHash = act_ipfsHash (records j),
                   verified = act_verified (records j) \<rparr>) [0 ..< N])]) \<and>
      (\<forall>effects. loadUserActions (Some c) address role_now = Some effects \<longrightarrow>
         length (userActions (apply_effects st effects)) = N \<and>
         (\<forall>j<N.
            description (userActions (apply_effects st effects) ! j) =
              act_description (records j) \<and>
            reductionAmount (userActions (apply_effects st effects) ! j) =
              Number_of_bigint (act_reductionAmount (records j)) \<and>
            (\<bar>act_reductionAmount (records j)\<bar> < 2 ^ 53 \<longrightarrow>
               reductionAmount (userActions (apply_effects st effects) ! j) =
                 act_reductionAmount (records j)) \<and>
            ipfsHash (userActions (apply_effects st effects) ! j) = act_ipfsHash (records j) \<and>
            verified (userActions (apply_effects st effects) ! j) =
              act_verified (records j)) \<and>
         console (apply_effects st effects) = console st)) \<and>
    (\<not> truthy_string address \<or> \<not> isManufacturer role_now \<longrightarrow>
       loadUserActions (Some c) address role_now = Some []) \<and>
    loadUserActions None address role_now = Some []"
proof (intro conjI impI)
  let ?a = "string_of address"
  let ?reads = "map (Read_manufacturerActions ?a) [0 ..< Suc N]"
  let ?recs = "map (\<lambda>j. to_EcoAction (records j)) [0 ..< N]"
  assume g: "truthy_string address \<and> isManufacturer role_now"
  have "probe_actions c ?a 0 [] [] = Some ([] @ ?recs, [] @ ?reads)"
    using assms by (intro probe_actions_run) simp_all
  then have run: "loadUserActions (Some c) address role_now = Some (?reads @ [setUserActions ?recs])"
    using g by (simp add: loadUserActions_def)
  then show "loadUserActions (Some c) address role_now =
        Some (?reads @
              [setUserActions (map (\<lambda>j.
                 \<lparr> description = act_description (records j),
                   reductionAmount = Number_of_bigint (act_reductionAmount (records j)),
                   ipfsHash = act_ipfsHash (records j),
                   verified = act_verified (records j) \<rparr>) [0 ..< N])])"
    by (simp add: to_EcoAction_def)
  have acts: "userActions (apply_effects st (?reads @ [setUserActions ?recs])) = ?recs"
    by (simp add: apply_effects_append)
  have log: "console (apply_effects st (?reads @ [setUserActions ?recs])) = console st"
    using probe_reads_quiet [of ?a "[0 ..< Suc N]"]
    by (simp add: apply_effects_append apply_effects_no_log)
  show "\<forall>effects. loadUserActions (Some c) address role_now = Some effects \<longrightarrow>
         length (userActions (apply_effects st effects)) = N \<and>
         (\<forall>j<N.
            description (userActions (apply_effects st effects) ! j) =
              act_description (records j) \<and>
            reductionAmount (userActions (apply_effects st effects) ! j) =
              Number_of_bigint (act_reductionAmount (records j)) \<and>
            (\<bar>act_reductionAmount (records j)\<bar> < 2 ^ 53 \<longrightarrow>
               reductionAmount (userActions (apply_effects st effects) ! j) =
                 act_reductionAmount (records j)) \<and>
            ipfsHash (userActions (apply_effects st effects) ! j) = act_ipfsHash (records j) \<and>
            verified (userActions (apply_effects st effects) ! j) =
              act_verified (records j)) \<and>
         console (apply_effects st effects) = console st"
    unfolding run using acts log by (simp add: to_EcoAction_def Number_of_bigint_exact)
next
  assume "\<not> truthy_string address \<or> \<not> isManufacturer role_now"
  then show "loadUserActions (Some c) address role_now = Some []"
    by (auto simp add: loadUserActions_def)
next
  show "loadUserActions None address role_now = Some []"
    by (simp add: loadUserActions_def)
qed

theorem loadUserActions_probe_witness:
  "manufacturerActions test_chain test_from 0 = Inr (test_action 0) \<and>
   manufacturerActions test_chain test_from 1 = Inr (test_action 1) \<and>
   manufacturerActions test_chain test_from 2 = Inl test_revert \<and>
   loadUserActions (Some test_chain) (Some test_from) test_role =
     Some [Read_manufacturerActions test_from 0, Read_manufacturerActions test_from 1,
           Read_manufacturerActions test_from 2,
           setUserActions
             [\<lparr> description = ''Solar panels'', reductionAmount = 5, ipfsHash = ''QmA'',
                verified = True \<rparr>,
              \<lparr> description = ''Heat pumps'', reductionAmount = 2363000000000000262144,
                ipfsHash = ''QmB'', verified = False \<rparr>]] \<and>
   loadUserActions (Some test_chain) (Some test_from) (userRole initial_cache) = Some []"
proof -
  have t: "truthy_string (Some test_from) \<and> isManufacturer test_role"
    "\<not> truthy_string (Some test_from) \<or> \<not> isManufacturer (userRole initial_cache)"
    "string_of (Some test_from) = test_from"
    by (simp_all add: truthy_string_def string_of_def test_from_def test_role_def
        initial_cache_def)
  have hit: "\<forall>j<2. manufacturerActions test_chain (string_of (Some test_from)) j = Inr (test_action j)"
    by (simp add: test_chain_def string_of_def)
  have miss: "manufacturerActions test_chain (string_of (Some test_from)) 2 = Inl test_revert"
    by (simp add: test_chain_def string_of_def)
  have u: "[0 ..< Suc 2] = [0, 1, 2]" "[0 ..< 2] = [0, Suc 0]"
    by (simp_all add: upt_rec)
  have b: "bit_length 2363000000000000000000 = 72"
    by (simp add: bit_length.simps)
  have n5: "Number_of_bigint 5 = 5"
    by (rule Number_of_bigint_exact) simp
  have n: "Number_of_bigint 2363000000000000000000 = 2363000000000000262144"
    by (simp add: Number_of_bigint_def Number_of_nat_def b)
  have v: "test_action 0 =
      \<lparr> act_description = ''Solar panels'', act_reductionAmount = 5, act_ipfsHash = ''QmA'',
        act_verified = True \<rparr>"
    "test_action (Suc 0) =
      \<lparr> act_description = ''Heat pumps'', act_reductionAmount = 2363000000000000000000,
        act_ipfsHash = ''QmB'', act_verified = False \<rparr>"
    by (simp_all add: test_action_def)
  show ?thesis
    using loadUserActions_probe [OF hit miss, of test_role initial_cache]
      loadUserActions_probe [OF hit miss, of "userRole initial_cache" initial_cache]
      hit miss t u n5 n v
    by simp
qed

text \<open>
  The claim as stated fails behind the guard: with records at the indices 0 and 1 and a
  throwing read at index 2, a loader that runs while the cached role set is still the
  initial one makes no read and stores nothing.
\<close>

theorem loadUserActions_guard_counterexample:
  "manufacturerActions test_chain test_from 0 = Inr (test_action 0) \<and>
   manufacturerActions test_chain test_from 1 = Inr (test_action 1) \<and>
   manufacturerActions test_chain test_from 2 = Inl test_revert \<and>
   isManufacturer (userRole initial_cache) = False \<and>
   loadUserActions (Some test_chain) (Some test_from) (userRole initial_cache) = Some [] \<and>
   userActions (apply_effects initial_cache []) = []"
  by (simp add: test_chain_def initial_cache_def loadUserActions_def truthy_string_def
      test_from_def)

subsection \<open>\<^verbatim>\<open>checkUserRole\<close>\<close>


lemma checkUserRole_failure:
  "truthy_string address \<Longrightarrow> role_batch c (string_of address) = None \<Longrightarrow>
   \<exists>reads. checkUserRole (Some c) address = reads @ [console_error ''Error checking user role:''] \<and>
     list_all (\<lambda>e. \<not> is_setter e) reads \<and> list_all (\<lambda>e. \<not> is_log e) reads"
  by (auto simp add: checkUserRole_def try_await_def role_batch_def Let_def
      split: sum.splits)






subsection \<open>Failed reads\<close>

text \<open>
  Claim C7, as amended. When one of the reads of \<^verbatim>\<open>checkUserRole\<close> throws, the error
  is logged and the cached role flags keep their values. When the balance read of
  \<^verbatim>\<open>getTokenBalance\<close> throws, the error is logged and the function returns the string
  \<^verbatim>\<open>0\<close>; it does not write the cache itself, but the balance refresh that calls it
  stores this \<^verbatim>\<open>0\<close> as the cached token balance.
\<close>

theorem failed_chain_reads:
  "(truthy_string address \<and> role_batch c (string_of address) = None \<longrightarrow>
      userRole (apply_effects st (checkUserRole (Some c) address)) = userRole st \<and>
      console (apply_effects st (checkUserRole (Some c) address)) =
        console st @ [''Error checking user role:'']) \<and>
   (truthy_string address \<and> balanceOf c (string_of address) = Inl err \<longrightarrow>
      getTokenBalance fmt (Some c) address =
        (''0'', [Read_balanceOf (string_of address),
                 console_error ''Error getting token balance:'']) \<and>
      tokenBalance (apply_effects st (snd (getTokenBalance fmt (Some c) address))) =
        tokenBalance st \<and>
      tokenBalance (apply_effects st (fetchTokenBalance fmt (Some c) True address)) = ''0'' \<and>
      console (apply_effects st (fetchTokenBalance fmt (Some c) True address)) =
        console st @ [''Error getting token balance:''])"
proof (intro conjI impI)
  assume a: "truthy_string address \<and> role_batch c (string_of address) = None"
  then have t: "truthy_string address" and b: "role_batch c (string_of address) = None"
    by simp_all
  from checkUserRole_failure [OF t b] obtain reads where
    es: "checkUserRole (Some c) address = reads @ [console_error ''Error checking user role:'']"
    and q: "list_all (\<lambda>e. \<not> is_setter e) reads" "list_all (\<lambda>e. \<not> is_log e) reads"
    by blast
  show "userRole (apply_effects st (checkUserRole (Some c) address)) = userRole st"
    unfolding es using q by (simp add: apply_effects_append apply_effects_no_setter)
  show "console (apply_effects st (checkUserRole (Some c) address)) =
        console st @ [''Error checking user role:'']"
    unfolding es using q by (simp add: apply_effects_append apply_effects_no_log)
next
  assume a: "truthy_string address \<and> balanceOf c (string_of address) = Inl err"
  then show g: "getTokenBalance fmt (Some c) address =
        (''0'', [Read_balanceOf (string_of address),
                 console_error ''Error getting token balance:''])"
    by (simp add: getTokenBalance_def)
  show "tokenBalance (apply_effects st (snd (getTokenBalance fmt (Some c) address))) =
        tokenBalance st"
    unfolding g by simp
  from a show "tokenBalance (apply_effects st (fetchTokenBalance fmt (Some c) True address)) = ''0''"
    by (simp add: fetchTokenBalance_def g)
  from a show "console (apply_effects st (fetchTokenBalance fmt (Some c) True address)) =
        console st @ [''Error getting token balance:'']"
    by (simp add: fetchTokenBalance_def g)
qed

theorem failed_chain_reads_witness:
  "role_batch (test_chain\<lparr>hasRole := (\<lambda>r a. Inl test_revert)\<rparr>) test_from = None \<and>
   userRole (apply_effects (initial_cache\<lparr>userRole := test_role\<rparr>)
      (checkUserRole (Some (test_chain\<lparr>hasRole := (\<lambda>r a. Inl test_revert)\<rparr>))
         (Some test_from))) = test_role \<and>
   balanceOf (test_chain\<lparr>balanceOf := (\<lambda>a. Inl test_revert)\<rparr>) test_from = Inl test_revert \<and>
   getTokenBalance test_formatEther
      (Some (test_chain\<lparr>balanceOf := (\<lambda>a. Inl test_revert)\<rparr>)) (Some test_from) =
     (''0'', [Read_balanceOf test_from, console_error ''Error getting token balance:'']) \<and>
   tokenBalance (apply_effects (initial_cache\<lparr>tokenBalance := ''5.0''\<rparr>)
      (fetchTokenBalance test_formatEther
         (Some (test_chain\<lparr>balanceOf := (\<lambda>a. Inl test_revert)\<rparr>)) True (Some test_from))) = ''0''"
proof -
  let ?noroles = "test_chain\<lparr>hasRole := (\<lambda>r a. Inl test_revert)\<rparr>"
  let ?nobalance = "test_chain\<lparr>balanceOf := (\<lambda>a. Inl test_revert)\<rparr>"
  have s: "string_of (Some test_from) = test_from" "truthy_string (Some test_from)"
    by (simp_all add: string_of_def truthy_string_def test_from_def)
  have r: "role_batch ?noroles test_from = None"
    by (simp add: role_batch_def test_chain_def)
  have b: "balanceOf ?nobalance test_from = Inl test_revert"
    by simp
  have u: "userRole (initial_cache\<lparr>userRole := test_role\<rparr>) = test_role"
    by simp
  show ?thesis
    using failed_chain_reads [where address = "Some test_from" and c = ?noroles
        and st = "initial_cache\<lparr>userRole := test_role\<rparr>"]
      failed_chain_reads [where address = "Some test_from" and c = ?nobalance
        and st = "initial_cache\<lparr>tokenBalance := ''5.0''\<rparr>" and err = test_revert
        and fmt = test_formatEther]
      s r b u
    by simp
qed

text \<open>
  The claim as stated fails for the token balance: after a refresh that cached the balance
  \<^verbatim>\<open>5.0\<close>, a refresh whose balance read throws leaves \<^verbatim>\<open>0\<close> in the cache.
\<close>

theorem failed_balance_read_counterexample:
  "tokenBalance (apply_effects initial_cache
      (fetchTokenBalance test_formatEther (Some test_chain) True (Some test_from))) = ''5.0'' \<and>
   balanceOf (test_chain\<lparr>balanceOf := (\<lambda>a. Inl test_revert)\<rparr>) test_from = Inl test_revert \<and>
   tokenBalance (apply_effects (initial_cache\<lparr>tokenBalance := ''5.0''\<rparr>)
      (fetchTokenBalance test_formatEther
         (Some (test_chain\<lparr>balanceOf := (\<lambda>a. Inl test_revert)\<rparr>)) True (Some test_from))) =
     ''0'' \<and>
   tokenBalance (initial_cache\<lparr>tokenBalance := ''5.0''\<rparr>) \<noteq> ''0''"
  by (simp add: fetchTokenBalance_def getTokenBalance_def chain_defs truthy_string_def
      string_of_def)

subsection \<open>\<^verbatim>\<open>loadRoleEvents\<close>\<close>

lemma sort_events_sorted: "sorted_wrt (\<lambda>x y. timestamp y \<le> timestamp x) (sort_events events)"
proof -
  have "sorted (map (\<lambda>e. - timestamp e) (sort_key (\<lambda>e. - timestamp e) events))"
    by (rule sorted_sort_key)
  then show ?thesis
    by (simp add: sort_events_def sorted_map)
qed

lemma take20_events_ok: "events_ok (take 20 (sort_events events))"
  using sort_events_sorted [of events]
  by (simp add: events_ok_def sorted_wrt_take)

lemma loadRoleEvents_cases:
  "(\<exists>c gs rs. contract = Some c \<and> queryFilter c RoleGranted = Inr gs \<and>
      queryFilter c RoleRevoked = Inr rs \<and>
      loadRoleEvents contract =
        [Read_queryFilter RoleGranted, Read_queryFilter RoleRevoked,
         setRoleEvents (take 20 (sort_events (push_events True gs @ push_events False rs)))]) \<or>
   list_all (\<lambda>e. \<not> is_setter e) (loadRoleEvents contract)"
  by (auto simp add: loadRoleEvents_def Let_def split: option.splits sum.splits)

text \<open>
  Claim C9. Every list \<^verbatim>\<open>loadRoleEvents\<close> stores is in non-increasing block order and
  has at most 20 entries. When both log queries succeed, the stored list is the first 20
  entries of the grants and revocations arranged by decreasing block number: a
  rearrangement of all of them is cut after 20, and every entry cut off has a block
  number no greater than any entry kept. The cached list starts empty, so it satisfies
  both properties at all times.
\<close>

theorem loadRoleEvents_sorted_top20:
  "(\<forall>events. setRoleEvents events \<in> set (loadRoleEvents contract) \<longrightarrow> events_ok events) \<and>
   (queryFilter c RoleGranted = Inr gs \<and> queryFilter c RoleRevoked = Inr rs \<longrightarrow>
      roleEvents (apply_effects st (loadRoleEvents (Some c))) =
        take 20 (sort_events (push_events True gs @ push_events False rs)) \<and>
      mset (sort_events (push_events True gs @ push_events False rs)) =
        mset (push_events True gs @ push_events False rs) \<and>
      (\<forall>x \<in> set (take 20 (sort_events (push_events True gs @ push_events False rs))).
       \<forall>y \<in> set (drop 20 (sort_events (push_events True gs @ push_events False rs))).
         timestamp y \<le> timestamp x)) \<and>
   (events_ok (roleEvents st) \<longrightarrow>
      events_ok (roleEvents (apply_effects st (loadRoleEvents contract)))) \<and>
   events_ok (roleEvents initial_cache)"
proof (intro conjI impI allI)
  fix events
  assume "setRoleEvents events \<in> set (loadRoleEvents contract)"
  then have "\<exists>all. events = take 20 (sort_events all)"
    using loadRoleEvents_cases [of contract] by (auto simp add: list_all_iff)
  then show "events_ok events"
    using take20_events_ok by blast
next
  let ?all = "push_events True gs @ push_events False rs"
  assume q: "queryFilter c RoleGranted = Inr gs \<and> queryFilter c RoleRevoked = Inr rs"
  then show "roleEvents (apply_effects st (loadRoleEvents (Some c))) = take 20 (sort_events ?all)"
    by (simp add: loadRoleEvents_def)
  show "mset (sort_events ?all) = mset ?all"
    by (simp add: sort_events_def)
  have "sorted_wrt (\<lambda>x y. timestamp y \<le> timestamp x)
      (take 20 (sort_events ?all) @ drop 20 (sort_events ?all))"
    using sort_events_sorted [of ?all] by simp
  then show "\<forall>x \<in> set (take 20 (sort_events ?all)). \<forall>y \<in> set (drop 20 (sort_events ?all)).
      timestamp y \<le> timestamp x"
    unfolding sorted_wrt_append by blast
next
  assume ok: "events_ok (roleEvents st)"
  from loadRoleEvents_cases [of contract]
  show "events_ok (roleEvents (apply_effects st (loadRoleEvents contract)))"
  proof
    assume "\<exists>c gs rs. contract = Some c \<and> queryFilter c RoleGranted = Inr gs \<and>
      queryFilter c RoleRevoked = Inr rs \<and>
      loadRoleEvents contract =
        [Read_queryFilter RoleGranted, Read_queryFilter RoleRevoked,
         setRoleEvents (take 20 (sort_events (push_events True gs @ push_events False rs)))]"
    then obtain gs' rs' where "loadRoleEvents contract =
        [Read_queryFilter RoleGranted, Read_queryFilter RoleRevoked,
         setRoleEvents (take 20 (sort_events (push_events True gs' @ push_events False rs')))]"
      by blast
    then show ?thesis
      by (simp add: take20_events_ok)
  next
    assume "list_all (\<lambda>e. \<not> is_setter e) (loadRoleEvents contract)"
    then show ?thesis
      using ok by (simp add: apply_effects_no_setter)
  qed
next
  show "events_ok (roleEvents initial_cache)"
    by (simp add: events_ok_def initial_cache_def)
qed

theorem loadRoleEvents_sorted_top20_witness:
  "roleEvents (apply_effects initial_cache (loadRoleEvents (Some test_chain))) =
     [\<lparr> user = test_to, role = ''Auditor'', granted = True, timestamp = 30 \<rparr>,
      \<lparr> user = test_to, role = ''Auditor'', granted = False, timestamp = 20 \<rparr>,
      \<lparr> user = test_from, role = ''Manufacturer'', granted = True, timestamp = 10 \<rparr>] \<and>
   events_ok (roleEvents (apply_effects initial_cache (loadRoleEvents (Some test_chain)))) \<and>
   map timestamp
     (roleEvents (apply_effects initial_cache (loadRoleEvents (Some test_busy_chain)))) =
     [25, 24, 23, 22, 21, 20, 19, 18, 17, 16, 15, 14, 13, 12, 11, 10, 9, 8, 7, 6]"
proof -
  let ?g = "[\<lparr> log_args = Some (test_from, ''0x9f2df0fed2c77648de5860a4cc508cd0818c85b8b8a1ab4ceeef8d981c8956a6''), log_blockNumber = 10 \<rparr>,
             \<lparr> log_args = Some (test_to, ''0x1e4c11d3c2f3e3b3e3b3e3b3e3b3e3b3e3b3e3b3e3b3e3b3e3b3e3b3e3b3e3b3''), log_blockNumber = 30 \<rparr>]"
  let ?r = "[\<lparr> log_args = Some (test_to, ''0x1e4c11d3c2f3e3b3e3b3e3b3e3b3e3b3e3b3e3b3e3b3e3b3e3b3e3b3e3b3e3b3''), log_blockNumber = 20 \<rparr>]"
  have q: "queryFilter test_chain RoleGranted = Inr ?g \<and> queryFilter test_chain RoleRevoked = Inr ?r"
    by (simp add: test_chain_def)
  have o: "events_ok (roleEvents initial_cache)"
    by (simp add: events_ok_def initial_cache_def)
  have v: "take 20 (sort_events (push_events True ?g @ push_events False ?r)) =
     [\<lparr> user = test_to, role = ''Auditor'', granted = True, timestamp = 30 \<rparr>,
      \<lparr> user = test_to, role = ''Auditor'', granted = False, timestamp = 20 \<rparr>,
      \<lparr> user = test_from, role = ''Manufacturer'', granted = True, timestamp = 10 \<rparr>]"
    by (simp add: sort_events_def push_events_def getRoleName_def)
  note t = loadRoleEvents_sorted_top20 [of "Some test_chain" test_chain ?g ?r initial_cache]
  from t q have e: "roleEvents (apply_effects initial_cache (loadRoleEvents (Some test_chain))) =
      take 20 (sort_events (push_events True ?g @ push_events False ?r))"
    by blast
  from t o have k: "events_ok (roleEvents (apply_effects initial_cache
      (loadRoleEvents (Some test_chain))))"
    by blast
  have busy: "map timestamp
     (roleEvents (apply_effects initial_cache (loadRoleEvents (Some test_busy_chain)))) =
     [25, 24, 23, 22, 21, 20, 19, 18, 17, 16, 15, 14, 13, 12, 11, 10, 9, 8, 7, 6]"
    by (simp add: test_busy_chain_def loadRoleEvents_def sort_events_def push_events_def upt_rec)
  show ?thesis
    using e k v busy by simp
qed

section \<open>Properties of the transfer request\<close>

text \<open>
  Claim C8, as amended. Once the address is set, the provider present and the amount
  parsed, the primary flow takes the nonce from the read \<^verbatim>\<open>nonces(address)\<close> and falls
  back to the current unix time, logging the error, only if that read (or making the
  contract object) throws; its deadline is the current time plus 15 minutes. The
  secondary variant always takes the current unix time as the nonce and never reads the
  contract's nonce; its deadline is the current time plus one hour.
\<close>

theorem transfer_request_nonce_and_deadline:
  "(truthy_string (form_address env) \<and> form_provider env = Some nonces \<and>
    form_parseEther env (form_amount env) = Inr wei \<longrightarrow>
      (form_new_Contract env = None \<and> nonces (string_of (form_address env)) = Inr n \<longrightarrow>
         EcoGaslessTransfer_createTransferRequest env =
           Inr (\<lparr> tr_from = string_of (form_address env), tr_to = form_recipientAddress env,
                  tr_amount = bigint_toString wei, tr_nonce = n,
                  tr_deadline = form_now_deadline env div 1000 + 15 * 60 \<rparr>, [])) \<and>
      (form_new_Contract env \<noteq> None \<or> isl (nonces (string_of (form_address env))) \<longrightarrow>
         EcoGaslessTransfer_createTransferRequest env =
           Inr (\<lparr> tr_from = string_of (form_address env), tr_to = form_recipientAddress env,
                  tr_amount = bigint_toString wei,
                  tr_nonce = form_now_getNonce env div 1000,
                  tr_deadline = form_now_deadline env div 1000 + 15 * 60 \<rparr>,
                [''Error getting nonce:''])) \<and>
      (\<exists>logs. GaslessTransferForm_createTransferRequest env =
           Inr (\<lparr> tr_from = string_of (form_address env), tr_to = form_recipientAddress env,
                  tr_amount = bigint_toString wei,
                  tr_nonce = form_now_getNonce env div 1000,
                  tr_deadline = form_now_deadline env div 1000 + 60 * 60 \<rparr>, logs)))"
  by (auto simp add: EcoGaslessTransfer_createTransferRequest_def EcoGaslessTransfer_getNonce_def
      GaslessTransferForm_createTransferRequest_def GaslessTransferForm_getNonce_def
      split: option.splits sum.splits)

theorem transfer_request_nonce_and_deadline_witness:
  "EcoGaslessTransfer_createTransferRequest test_form =
     Inr (\<lparr> tr_from = test_from, tr_to = test_to, tr_amount = ''10000000000000000000'',
            tr_nonce = 7, tr_deadline = 1700000900 \<rparr>, []) \<and>
   EcoGaslessTransfer_createTransferRequest
       (test_form\<lparr>form_provider := Some (\<lambda>a. Inl test_revert)\<rparr>) =
     Inr (\<lparr> tr_from = test_from, tr_to = test_to, tr_amount = ''10000000000000000000'',
            tr_nonce = 1700000000, tr_deadline = 1700000900 \<rparr>, [''Error getting nonce:'']) \<and>
   (\<exists>logs. GaslessTransferForm_createTransferRequest test_form =
     Inr (\<lparr> tr_from = test_from, tr_to = test_to, tr_amount = ''10000000000000000000'',
            tr_nonce = 1700000000, tr_deadline = 1700003600 \<rparr>, logs))"
proof -
  let ?down = "test_form\<lparr>form_provider := Some (\<lambda>a. Inl test_revert)\<rparr>"
  have s: "bigint_toString 10000000000000000000 = ''10000000000000000000''"
    by (simp add: bigint_toString_def nat_toString.simps digit_char_def char_of_eq_iff)
  have h: "truthy_string (form_address test_form) \<and> form_provider test_form = Some (\<lambda>a. Inr 7) \<and>
      form_parseEther test_form (form_amount test_form) = Inr 10000000000000000000"
    "truthy_string (form_address ?down) \<and> form_provider ?down = Some (\<lambda>a. Inl test_revert) \<and>
      form_parseEther ?down (form_amount ?down) = Inr 10000000000000000000"
    by (simp_all add: test_form_def truthy_string_def test_from_def)
  have v: "string_of (form_address test_form) = test_from" "form_recipientAddress test_form = test_to"
    "form_new_Contract test_form = None" "form_now_getNonce test_form div 1000 = 1700000000"
    "form_now_deadline test_form div 1000 = 1700000000"
    by (simp_all add: test_form_def string_of_def)
  show ?thesis
    using transfer_request_nonce_and_deadline [of test_form "\<lambda>a. Inr 7" 10000000000000000000 7]
      transfer_request_nonce_and_deadline [of ?down "\<lambda>a. Inl test_revert" 10000000000000000000 7]
      h v s
    by simp
qed

text \<open>
  The claim as stated fails for the secondary variant: with a chain whose nonce read
  succeeds and gives 7, the request it builds carries the unix time as its nonce.
\<close>

theorem transfer_request_nonce_counterexample:
  "form_provider test_form = Some (\<lambda>a. Inr 7) \<and>
   GaslessTransferForm_createTransferRequest test_form =
     Inr (\<lparr> tr_from = test_from, tr_to = test_to, tr_amount = ''10000000000000000000'',
            tr_nonce = 1700000000, tr_deadline = 1700003600 \<rparr>, [])"
  by (simp add: test_form_def GaslessTransferForm_createTransferRequest_def
      GaslessTransferForm_getNonce_def truthy_string_def string_of_def test_from_def
      bigint_toString_def nat_toString.simps digit_char_def char_of_eq_iff)


end
